theory Spec2Isabelle
  imports Main
begin

section \<open>JavaScript values and regular expressions\<close>

text \<open>
  The orchestration engine of \<^verbatim>\<open>src/environment-base.ts\<close> (classes
  \<^verbatim>\<open>EnvironmentBase\<close> and \<^verbatim>\<open>Environment\<close>) is embedded as pure functions over an
  explicit environment state. JavaScript values that travel through events, promises and
  exceptions are one datatype; a thrown value is any of them.
\<close>

datatype jsval =
    Undefined
  | Str string
  | TypeError string
  | Error string
  | SyntaxError string
  | Ref nat
  | Val nat

text \<open>
  A match as \<^verbatim>\<open>exec\<close> reports it: the index where it starts, the matched text, the
  numbered captures (\<open>None\<close> for a group that did not take part) and the named groups,
  if the pattern has any.
\<close>

datatype jsmatch =
  Match (m_index: nat) (m_text: string) (m_captures: "string option list")
        (m_groups: "(string \<times> string option) list option")

text \<open>
  A \<^verbatim>\<open>RegExp\<close> object. \<open>rx_matcher r s i\<close> is the attempt of the pattern to match
  the subject \<open>s\<close> at exactly the position \<open>i\<close>: it fails, or gives the length of the
  matched text with the captures and named groups (the pattern's other flags act inside
  the matcher). \<open>rx_global\<close> and \<open>rx_sticky\<close> are the \<^verbatim>\<open>g\<close> and \<^verbatim>\<open>y\<close> flags,
  \<open>lastIndex\<close> is the mutable property of that name. Strings are lists of code units;
  the identifiers in question hold no surrogate pairs, so \<^verbatim>\<open>AdvanceStringIndex\<close> is
  the successor.
\<close>

record regexp =
  rx_matcher ::
    "string \<Rightarrow> nat \<Rightarrow> (nat \<times> string option list \<times> (string \<times> string option) list option) option"
  rx_global :: bool
  rx_sticky :: bool
  lastIndex :: nat

definition match_at :: "regexp \<Rightarrow> string \<Rightarrow> nat \<Rightarrow> jsmatch option" where
  "match_at r s i =
     (case rx_matcher r s i of
        None \<Rightarrow> None
      | Some (n, captures, groups) \<Rightarrow> Some (Match i (take n (drop i s)) captures groups))"

fun first_match :: "regexp \<Rightarrow> string \<Rightarrow> nat list \<Rightarrow> jsmatch option" where
  "first_match r s [] = None"
| "first_match r s (i # is) =
     (case match_at r s i of Some m \<Rightarrow> Some m | None \<Rightarrow> first_match r s is)"

text \<open>
  \<^verbatim>\<open>RegExpBuiltinExec\<close> of ECMAScript, with the object as it is left. Without the
  \<^verbatim>\<open>g\<close> and \<^verbatim>\<open>y\<close> flags the search starts at 0 and \<^verbatim>\<open>lastIndex\<close> is neither
  read nor written. With one of them it starts at \<^verbatim>\<open>lastIndex\<close>, which becomes the end
  of the match, or 0 when there is none. A sticky pattern is tried at the start position
  only, any other at every position from there to the end of the subject.
\<close>

definition RegExpBuiltinExec :: "regexp \<Rightarrow> string \<Rightarrow> jsmatch option \<times> regexp" where
  "RegExpBuiltinExec r s =
     (let flagged = (rx_global r \<or> rx_sticky r);
          i = (if flagged then lastIndex r else 0);
          found = (if i > length s then None
                   else if rx_sticky r then match_at r s i
                   else first_match r s [i..<Suc (length s)])
      in case found of
           None \<Rightarrow> (None, if flagged then r\<lparr>lastIndex := 0\<rparr> else r)
         | Some m \<Rightarrow>
             (Some m, if flagged then r\<lparr>lastIndex := m_index m + length (m_text m)\<rparr> else r))"

text \<open>\<^verbatim>\<open>regexp.test(s)\<close>: whether \<^verbatim>\<open>exec\<close> finds a match, and the object afterwards.\<close>

definition RegExp_test :: "regexp \<Rightarrow> string \<Rightarrow> bool \<times> regexp" where
  "RegExp_test r s = (case RegExpBuiltinExec r s of (m, r') \<Rightarrow> (m \<noteq> None, r'))"

text \<open>
  \<^verbatim>\<open>GetSubstitution\<close> of ECMAScript: the expansion of the replacement template
  (\<^verbatim>\<open>$$\<close>, \<^verbatim>\<open>$&\<close>, \<^verbatim>\<open>$`\<close>, \<^verbatim>\<open>$'\<close>, \<^verbatim>\<open>$n\<close>, \<^verbatim>\<open>$nn\<close>,
  \<^verbatim>\<open>$<name>\<close>). The first argument is the scanner's mode: \<open>None\<close> while copying the
  template, \<open>Some acc\<close> while reading a group name after \<^verbatim>\<open>$<\<close>.
\<close>

definition digit_of :: "char \<Rightarrow> nat option" where
  "digit_of c =
     (if (48::nat) \<le> of_char c \<and> (of_char c :: nat) \<le> 57
      then Some (of_char c - 48) else None)"

definition capture_ref :: "string option list \<Rightarrow> nat \<Rightarrow> string \<Rightarrow> string" where
  "capture_ref captures index ref =
     (if 1 \<le> index \<and> index \<le> length captures
      then (case captures ! (index - 1) of None \<Rightarrow> [] | Some c \<Rightarrow> c)
      else ref)"

definition group_ref :: "(string \<times> string option) list \<Rightarrow> string \<Rightarrow> string" where
  "group_ref groups name =
     (case map_of groups name of None \<Rightarrow> [] | Some None \<Rightarrow> [] | Some (Some c) \<Rightarrow> c)"

fun GetSubstitution ::
  "string option \<Rightarrow> string \<Rightarrow> string \<Rightarrow> nat \<Rightarrow> string option list \<Rightarrow>
   (string \<times> string option) list option \<Rightarrow> string \<Rightarrow> string" where
  "GetSubstitution mode matched str position captures groups [] = []"
| "GetSubstitution (Some acc) matched str position captures groups (c # t) =
     (if c = CHR ''>''
      then group_ref (case groups of None \<Rightarrow> [] | Some g \<Rightarrow> g) acc
           @ GetSubstitution None matched str position captures groups t
      else GetSubstitution (Some (acc @ [c])) matched str position captures groups t)"
| "GetSubstitution None matched str position captures groups (c # t) =
     (if c \<noteq> CHR ''$'' then c # GetSubstitution None matched str position captures groups t
      else (case t of
          [] \<Rightarrow> [c]
        | d # u \<Rightarrow>
            if d = CHR ''$'' then CHR ''$'' # GetSubstitution None matched str position captures groups u
            else if d = CHR 0x60 then
              take position str @ GetSubstitution None matched str position captures groups u
            else if d = CHR ''&'' then
              matched @ GetSubstitution None matched str position captures groups u
            else if d = CHR 0x27 then
              drop (position + length matched) str
              @ GetSubstitution None matched str position captures groups u
            else if d = CHR ''<'' then
              (if groups \<noteq> None \<and> CHR ''>'' \<in> set u
               then GetSubstitution (Some []) matched str position captures groups u
               else c # d # GetSubstitution None matched str position captures groups u)
            else (case digit_of d of
                None \<Rightarrow> c # GetSubstitution None matched str position captures groups t
              | Some d1 \<Rightarrow>
                  (case u of
                      [] \<Rightarrow> capture_ref captures d1 [c, d]
                    | e # v \<Rightarrow>
                        (case digit_of e of
                            None \<Rightarrow> capture_ref captures d1 [c, d]
                                   @ GetSubstitution None matched str position captures groups u
                          | Some d2 \<Rightarrow>
                              if 10 * d1 + d2 > length captures
                              then capture_ref captures d1 [c, d]
                                   @ GetSubstitution None matched str position captures groups u
                              else capture_ref captures (10 * d1 + d2) [c, d, e]
                                   @ GetSubstitution None matched str position captures groups v)))))"

text \<open>
  \<^verbatim>\<open>str.replace(regexp, replaceValue)\<close> for a string \<^verbatim>\<open>replaceValue\<close>, that is
  \<^verbatim>\<open>RegExp.prototype[Symbol.replace]\<close>. With the \<^verbatim>\<open>g\<close> flag \<^verbatim>\<open>lastIndex\<close> is set
  to 0 and \<^verbatim>\<open>exec\<close> is repeated until it fails, \<^verbatim>\<open>lastIndex\<close> being advanced by
  one after an empty match (\<open>collect_matches\<close>); without it \<^verbatim>\<open>exec\<close> runs once. The
  result is put together from the pieces of the subject between the matches and the
  expanded templates (\<open>assemble\<close>, whose third argument is \<^verbatim>\<open>nextSourcePosition\<close>).
\<close>

function collect_matches :: "regexp \<Rightarrow> string \<Rightarrow> jsmatch list \<times> regexp" where
  "collect_matches r s =
     (if \<not> rx_global r then ([], r)
      else (case RegExpBuiltinExec r s of
              (None, r') \<Rightarrow> ([], r')
            | (Some m, r') \<Rightarrow>
                (case collect_matches
                        (if m_text m = [] then r'\<lparr>lastIndex := Suc (lastIndex r')\<rparr> else r') s of
                   (ms, r'') \<Rightarrow> (m # ms, r''))))"
  by pat_completeness auto

lemma match_at_index: "match_at r s i = Some m \<Longrightarrow> m_index m = i"
  by (auto simp: match_at_def split: option.splits)

lemma first_match_index: "first_match r s is = Some m \<Longrightarrow> m_index m \<in> set is"
  by (induction "is") (auto split: option.splits dest: match_at_index)

lemma exec_advances:
  assumes "rx_global r" and "RegExpBuiltinExec r s = (Some m, r')"
  shows "lastIndex r \<le> m_index m \<and> lastIndex r \<le> length s
         \<and> lastIndex r' = m_index m + length (m_text m)"
proof -
  have le: "lastIndex r \<le> length s"
    using assms by (auto simp: RegExpBuiltinExec_def Let_def split: if_splits option.splits)
  have found: "(if rx_sticky r then match_at r s (lastIndex r)
                else first_match r s [lastIndex r..<Suc (length s)]) = Some m"
    using assms le
    by (auto simp: RegExpBuiltinExec_def Let_def simp del: upt_Suc
             split: if_splits option.splits)
  have "m_index m \<ge> lastIndex r"
  proof (cases "rx_sticky r")
    case True
    then show ?thesis using found match_at_index[of r s "lastIndex r" m] by simp
  next
    case False
    then have "m_index m \<in> set [lastIndex r..<Suc (length s)]"
      using found first_match_index[of r s "[lastIndex r..<Suc (length s)]" m] by simp
    then show ?thesis by auto
  qed
  moreover have "lastIndex r' = m_index m + length (m_text m)"
    using assms by (auto simp: RegExpBuiltinExec_def Let_def split: if_splits option.splits)
  ultimately show ?thesis using le by simp
qed

termination collect_matches
proof (relation "measure (\<lambda>(r, s). Suc (length s) - lastIndex r)")
  show "wf (measure (\<lambda>(r, s). Suc (length s) - lastIndex r))" by simp
next
  fix r :: regexp and s :: string and x :: "jsmatch option" and r' :: regexp and m :: jsmatch
  assume a: "\<not> \<not> rx_global r" "(x, r') = RegExpBuiltinExec r s" "x = Some m"
  then have e: "RegExpBuiltinExec r s = (Some m, r')" by simp
  have g: "rx_global r" using a(1) by simp
  have adv: "lastIndex r \<le> m_index m" "lastIndex r \<le> length s"
    "lastIndex r' = m_index m + length (m_text m)"
    using exec_advances[OF g e] by simp_all
  show "((if m_text m = [] then r'\<lparr>lastIndex := Suc (lastIndex r')\<rparr> else r', s), r, s)
          \<in> measure (\<lambda>(r, s). Suc (length s) - lastIndex r)"
  proof (cases "m_text m = []")
    case True
    have "Suc (length s) - Suc (m_index m) < Suc (length s) - lastIndex r"
      using adv(1,2) by arith
    then show ?thesis using True adv(3) by simp
  next
    case False
    then have "length (m_text m) > 0" by simp
    then have "Suc (length s) - (m_index m + length (m_text m)) < Suc (length s) - lastIndex r"
      using adv(1,2) by arith
    then show ?thesis using False adv(3) by simp
  qed
qed

fun assemble :: "string \<Rightarrow> string \<Rightarrow> nat \<Rightarrow> jsmatch list \<Rightarrow> string" where
  "assemble s v nsp [] = drop nsp s"
| "assemble s v nsp (m # ms) =
     (let position = min (m_index m) (length s)
      in if position \<ge> nsp
         then take (position - nsp) (drop nsp s)
              @ GetSubstitution None (m_text m) s position (m_captures m) (m_groups m) v
              @ assemble s v (position + length (m_text m)) ms
         else assemble s v nsp ms)"

definition RegExp_replace :: "regexp \<Rightarrow> string \<Rightarrow> string \<Rightarrow> string \<times> regexp" where
  "RegExp_replace r s v =
     (if rx_global r then
        (case collect_matches (r\<lparr>lastIndex := 0\<rparr>) s of (ms, r') \<Rightarrow> (assemble s v 0 ms, r'))
      else
        (case RegExpBuiltinExec r s of
           (None, r') \<Rightarrow> (s, r')
         | (Some m, r') \<Rightarrow> (assemble s v 0 [m], r')))"

text \<open>
  The pattern \<^verbatim>\<open>/^([^:]+)$/\<close> of the constructor: it has no flags, matches at
  position 0 exactly the non-empty strings without a colon, and its only group captures
  the whole string.
\<close>

definition rx_no_colon :: regexp where
  "rx_no_colon =
     \<lparr> rx_matcher = (\<lambda>s i. if i = 0 \<and> s \<noteq> [] \<and> CHR '':'' \<notin> set s
                            then Some (length s, [Some s], None) else None),
       rx_global = False, rx_sticky = False, lastIndex = 0 \<rparr>"

section \<open>The environment state\<close>

subsection \<open>Generators\<close>

text \<open>
  The options an \<^verbatim>\<open>Environment\<close> and a generator carry, as far as \<^verbatim>\<open>start\<close> reads
  them (the keys it picks for the conflicter, and the \<^verbatim>\<open>cwd\<close> it adds to them)
  together with \<^verbatim>\<open>help\<close>, which \<^verbatim>\<open>run\<close> reads. \<open>None\<close> is
  \<^verbatim>\<open>undefined\<close>.
\<close>

record run_options =
  force :: "bool option"
  bail :: "bool option"
  ignoreWhitespace :: "bool option"
  dryRun :: "bool option"
  skipYoResolve :: "bool option"
  logCwd :: "string option"
  cwd_opt :: "string option"
  help_opt :: "bool option"

text \<open>
  A task a generator contributes to the run loop. Its business logic is outside the
  engine; what the engine can observe of it is kept: the files it stages in the shared
  in-memory filesystem, in order, and whether it then throws (or rejects).
\<close>

datatype user_task = UserTask (ut_writes: "(string \<times> string) list") (ut_throws: "jsval option")

text \<open>
  An instantiated generator, as the engine sees it through the generator contract:
  \<^item> \<open>gen_ref\<close> is the identity of the object;
  \<^item> \<open>gen_identifier\<close> is the identity the composed store derives from the instance;
  \<^item> \<open>gen_has_queueTasks\<close> tells whether it has the \<^verbatim>\<open>queueTasks\<close> method, which then
    queues \<open>gen_tasks\<close> (priority and task) through \<^verbatim>\<open>env.queueTask\<close> and rejects with
    \<open>gen_queueTasks_throws\<close> if that is set;
  \<^item> \<open>gen_forwardErrorToEnvironment\<close> is \<^verbatim>\<open>generator.options.forwardErrorToEnvironment\<close>;
  \<^item> \<open>gen_run_result\<close> is what the promise returned by the legacy \<^verbatim>\<open>run()\<close> settles to;
  \<^item> \<open>gen_options\<close> is \<^verbatim>\<open>generator.options\<close>.
\<close>

record generator =
  gen_ref :: nat
  gen_identifier :: string
  gen_has_queueTasks :: bool
  gen_tasks :: "(string \<times> user_task) list"
  gen_queueTasks_throws :: "jsval option"
  gen_forwardErrorToEnvironment :: bool
  gen_run_result :: jsval
  gen_options :: run_options

subsection \<open>Event emitters and promises\<close>

text \<open>
  A Node \<^verbatim>\<open>EventEmitter\<close> is its listener table: event name, whether the listener was
  added with \<^verbatim>\<open>once\<close>, and the listener. The closures the source registers are
  enumerated, each constructor standing for one arrow function:
  \<^item> \<open>RejectRun p\<close>: \<^verbatim>\<open>error => reject(error)\<close> of the promise \<open>p\<close> made by \<^verbatim>\<open>start\<close>;
  \<^item> \<open>ResolveWith p\<close>: \<^verbatim>\<open>error => resolve(error)\<close> (on \<^verbatim>\<open>generator:resolve\<close>);
  \<^item> \<open>ResolveEnd p\<close>: \<^verbatim>\<open>() => resolve()\<close> (once, on \<^verbatim>\<open>end\<close>);
  \<^item> \<open>GeneratorEmit g ev\<close>: \<^verbatim>\<open>() => generator.emit(ev)\<close> of \<^verbatim>\<open>queueGenerator\<close>.
  On the run loop: \<open>ForwardError\<close> is \<^verbatim>\<open>error => { this.emit('error', error);
  this.adapter.close(); }\<close>, \<open>ForwardPaused\<close> and \<open>ForwardEnd\<close> emit \<^verbatim>\<open>paused\<close> and
  \<^verbatim>\<open>end\<close> on the environment. On the shared filesystem: \<open>QueueCommit\<close> is the inner
  \<^verbatim>\<open>queueCommit\<close> closure.
\<close>

datatype handler = RejectRun nat | ResolveWith nat | ResolveEnd nat | GeneratorEmit nat string

datatype rl_handler = ForwardError | ForwardPaused | ForwardEnd

datatype fs_handler = QueueCommit

datatype promise_state = Unsettled | Resolved jsval | Rejected jsval

subsection \<open>The run loop\<close>

text \<open>
  The functions handed to \<^verbatim>\<open>queueTask\<close>: the commit task of \<^verbatim>\<open>queueCommit\<close>, the
  install task of \<^verbatim>\<open>queuePackageManagerInstall\<close>, the scheduled
  \<^verbatim>\<open>() => runGenerator()\<close> of \<^verbatim>\<open>queueGenerator\<close>, and a generator's own task.
\<close>

datatype task = CommitTask | InstallTask | RunGenerator generator | User user_task

record queued =
  q_task :: task
  q_once :: "string option"

datatype rl_state = Idle | Running | Paused | Ended

text \<open>
  Modelled from the spec: the run loop is a \<^verbatim>\<open>GroupedQueue\<close> of the package
  \<^verbatim>\<open>grouped-queue\<close>, which is not among the sources. Following section 4.4 it is an
  ordered list of named sub-queues, each a FIFO list of pending tasks, with the states
  idle, running, paused and ended, and it is an event emitter.
\<close>

record grouped_queue =
  sub_queues :: "(string \<times> queued list) list"
  rl_state :: rl_state
  rl_listeners :: "(string \<times> bool \<times> rl_handler) list"

subsection \<open>The composed store\<close>

text \<open>
  What \<^verbatim>\<open>composedStore.customCommitTask\<close> can hold when the commit task reads it:
  a function (which completes, or rejects with the given value) or something that is not
  a function; \<open>None\<close> in the store is \<^verbatim>\<open>undefined\<close>.
\<close>

datatype custom_task = CustomFunction "jsval option" | NotAFunction

text \<open>
  Modelled from the spec: \<^verbatim>\<open>ComposedStore\<close> of \<^verbatim>\<open>./composed-store.js\<close> is not among
  the sources. Following sections 3 and 4.3 it holds the composed entries, identifier and
  generator instance, at most one per identifier, in the order of composition.
\<close>

record composed_store =
  cs_generators :: "(string \<times> generator) list"
  customCommitTask :: "custom_task option"

subsection \<open>The staged filesystem, the disk and the adapter\<close>

datatype file_state = Pending | Committed | Deleted

record staged_file =
  f_path :: string
  f_contents :: string
  f_state :: file_state
  f_conflicter :: "string option"

record mem_fs =
  files :: "staged_file list"
  fs_listeners :: "(string \<times> bool \<times> fs_handler) list"

datatype decision = Overwrite | Skip | AbortAll

text \<open>
  The interactive adapter: how often \<^verbatim>\<open>close()\<close> was called, the answer it gives when
  asked about the conflict at a path, and the paths it was asked about, in order.
\<close>

record adapter =
  closed :: nat
  answer :: "string \<Rightarrow> decision"
  prompts :: "string list"

subsection \<open>The registry\<close>

text \<open>
  Modelled from the spec: \<^verbatim>\<open>Store\<close> of \<^verbatim>\<open>./store.js\<close> is not among the sources.
  Following section 4.2 it maps a namespace to generator metadata: the resolved location
  and, when one was registered directly or is loaded already, the factory. A factory is
  represented by the generator it instantiates.
\<close>

record generator_meta =
  meta_resolved :: string
  meta_factory :: "generator option"

subsection \<open>The environment\<close>

text \<open>
  An entry of \<^verbatim>\<open>this.aliases\<close>. \<open>match\<close> is a reference to a \<^verbatim>\<open>RegExp\<close>
  object, its position in \<open>regexps\<close> below: two rules registered with one object
  share its \<^verbatim>\<open>lastIndex\<close>.
\<close>

record alias_rule =
  match :: nat
  "value" :: string

datatype compat = CompatFalse | CompatV4

text \<open>
  The fields of \<^verbatim>\<open>Environment\<close>. Four of them are records of what happened, kept so
  that properties of the effects can be stated: \<open>emitted\<close> lists every \<^verbatim>\<open>emit\<close> on
  the environment, \<open>uncaught\<close> the values thrown out of an event callback,
  \<open>gen_emitted\<close> the events emitted on generators, and \<open>prepare_calls\<close> the calls of
  \<^verbatim>\<open>prepareEnvironment\<close>. \<open>gen_listeners\<close> holds one entry for each
  \<^verbatim>\<open>generator.on('error', error => this.emit('error', error))\<close>, \<open>gen_promise\<close> what
  was assigned to \<^verbatim>\<open>generator.promise\<close>. \<open>promises\<close> are the promises made by
  \<^verbatim>\<open>start\<close>, addressed by their position. \<open>disk\<close> is the real filesystem,
  \<open>resolution_file\<close> the persisted path-keyed decisions. \<open>regexps\<close> holds the
  \<^verbatim>\<open>RegExp\<close> objects that exist, addressed by their position.
\<close>

record environment =
  aliases :: "alias_rule list"
  regexps :: "regexp list"
  experimental :: bool
  options :: run_options
  store :: "(string \<times> generator_meta) list"
  listeners :: "(string \<times> bool \<times> handler) list"
  emitted :: "(string \<times> jsval list) list"
  uncaught :: "jsval list"
  runLoop :: grouped_queue
  composedStore :: composed_store
  sharedFs :: mem_fs
  disk :: "string \<Rightarrow> string option"
  resolution_file :: "string \<Rightarrow> decision option"
  adapter :: adapter
  private_rootGenerator :: "generator option"
  compatibilityMode :: "compat option"
  conflicter :: "unit option"
  conflicterOptions :: "run_options option"
  promises :: "promise_state list"
  gen_listeners :: "nat list"
  gen_emitted :: "(nat \<times> string) list"
  gen_promise :: "(nat \<times> jsval) list"
  install_runs :: nat
  prepare_calls :: "string list"

section \<open>Alias resolution\<close>

text \<open>
  The first argument of \<^verbatim>\<open>alias(match, value)\<close> as it can arrive at run time: a string,
  a \<^verbatim>\<open>RegExp\<close> (the reference to the object), another object (for instance a structural
  namespace, given with the text its string conversion yields) or \<^verbatim>\<open>undefined\<close>. The
  second argument is \<open>None\<close> when it is left out.
\<close>

datatype alias_arg = AString string | ARegExp nat | AObject string | AUndefined

fun truthy_arg :: "alias_arg \<Rightarrow> bool" where
  "truthy_arg (AString s) = (s \<noteq> [])"
| "truthy_arg (ARegExp a) = True"
| "truthy_arg (AObject s) = True"
| "truthy_arg AUndefined = False"

fun truthy_string :: "string option \<Rightarrow> bool" where
  "truthy_string None = False"
| "truthy_string (Some v) = (v \<noteq> [])"

fun arg_to_string :: "alias_arg \<Rightarrow> string" where
  "arg_to_string (AString s) = s"
| "arg_to_string (AObject s) = s"
| "arg_to_string AUndefined = ''undefined''"
| "arg_to_string (ARegExp a) = []"

datatype alias_return = ReturnThis | ReturnString string

text \<open>
  A \<^verbatim>\<open>RegExp\<close> literal or constructor call of a caller: the new object joins the
  objects that exist, and its reference is returned.
\<close>

definition new_RegExp :: "regexp \<Rightarrow> environment \<Rightarrow> nat \<times> environment" where
  "new_RegExp r env = (length (regexps env), env\<lparr>regexps := regexps env @ [r]\<rparr>)"

text \<open>
  The callback of \<^verbatim>\<open>aliases.reduce\<close> in the getter, on the string resolved so far and
  the objects: \<^verbatim>\<open>alias.match.test(resolved)\<close>, and after a match
  \<^verbatim>\<open>resolved.replace(alias.match, alias.value)\<close>; both leave the object of the rule with
  a new \<^verbatim>\<open>lastIndex\<close>. A reference to no object does not occur in the program; such a
  rule is passed over.
\<close>

definition apply_alias :: "alias_rule \<Rightarrow> string \<times> regexp list \<Rightarrow> string \<times> regexp list" where
  "apply_alias a acc =
     (case acc of (resolved, heap) \<Rightarrow>
        if match a \<ge> length heap then (resolved, heap)
        else (case RegExp_test (heap ! match a) resolved of
                (False, r1) \<Rightarrow> (resolved, heap[match a := r1])
              | (True, r1) \<Rightarrow>
                  (case RegExp_replace r1 resolved (value a) of
                     (replaced, r2) \<Rightarrow> (replaced, heap[match a := r2]))))"

text \<open>
  \<^verbatim>\<open>alias(match, value)\<close>. With both arguments truthy it is the setter: the rule is
  pushed at the end of \<^verbatim>\<open>this.aliases\<close>, with the \<^verbatim>\<open>RegExp\<close> given or with a new
  one, without flags, that \<^verbatim>\<open>new RegExp(`^${match}$`)\<close> makes of a string (or object).
  The compiler of pattern sources is the parameter \<open>RegExp_new\<close>, which gives the
  matcher; \<open>None\<close> is its \<^verbatim>\<open>SyntaxError\<close>. Otherwise it is the getter, which throws
  on anything but a string and folds the reversed rule list over the string. The result
  is what is returned or thrown, and the state.
\<close>

definition alias_fn ::
  "(string \<Rightarrow> (string \<Rightarrow> nat \<Rightarrow> (nat \<times> string option list
                  \<times> (string \<times> string option) list option) option) option)
   \<Rightarrow> alias_arg \<Rightarrow> string option \<Rightarrow> environment
   \<Rightarrow> (jsval + alias_return) \<times> environment" where
  "alias_fn RegExp_new m v env =
     (if truthy_arg m \<and> truthy_string v then
        (case m of
           ARegExp a \<Rightarrow>
             (Inr ReturnThis, env\<lparr>aliases := aliases env @ [\<lparr>match = a, value = the v\<rparr>]\<rparr>)
         | _ \<Rightarrow>
             (case RegExp_new (''^'' @ arg_to_string m @ ''$'') of
                None \<Rightarrow> (Inl (SyntaxError ''Invalid regular expression''), env)
              | Some matcher \<Rightarrow>
                  (case new_RegExp \<lparr>rx_matcher = matcher, rx_global = False,
                                     rx_sticky = False, lastIndex = 0\<rparr> env of
                     (a, env') \<Rightarrow>
                       (Inr ReturnThis,
                        env'\<lparr>aliases := aliases env' @ [\<lparr>match = a, value = the v\<rparr>]\<rparr>))))
      else
        (case m of
           AString s \<Rightarrow>
             (case foldl (\<lambda>acc a. apply_alias a acc) (s, regexps env) (rev (aliases env)) of
                (resolved, heap) \<Rightarrow> (Inr (ReturnString resolved), env\<lparr>regexps := heap\<rparr>))
         | _ \<Rightarrow> (Inl (TypeError ''string is required''), env)))"

text \<open>
  No rule matches a string: each rule's \<^verbatim>\<open>alias.match.test\<close>, taken in the order of the
  list and on the objects as the tests before it have left them, is false.
\<close>

fun no_match :: "alias_rule list \<Rightarrow> string \<Rightarrow> regexp list \<Rightarrow> bool" where
  "no_match [] t heap = True"
| "no_match (a # as) t heap =
     (if match a \<ge> length heap then no_match as t heap
      else \<not> fst (RegExp_test (heap ! match a) t)
           \<and> no_match as t (heap[match a := snd (RegExp_test (heap ! match a) t)]))"

section \<open>Events and promises\<close>

definition listeners_for :: "string \<Rightarrow> (string \<times> bool \<times> 'h) list \<Rightarrow> 'h list" where
  "listeners_for ev ls = map (\<lambda>l. snd (snd l)) (filter (\<lambda>l. fst l = ev) ls)"

definition remove_once :: "string \<Rightarrow> (string \<times> bool \<times> 'h) list \<Rightarrow> (string \<times> bool \<times> 'h) list" where
  "remove_once ev ls = filter (\<lambda>l. \<not> (fst l = ev \<and> fst (snd l))) ls"

text \<open>\<^verbatim>\<open>this.on(ev, listener)\<close> and \<^verbatim>\<open>this.once(ev, listener)\<close>.\<close>

definition on :: "string \<Rightarrow> handler \<Rightarrow> environment \<Rightarrow> environment" where
  "on ev h env = env\<lparr>listeners := listeners env @ [(ev, False, h)]\<rparr>"

definition once :: "string \<Rightarrow> handler \<Rightarrow> environment \<Rightarrow> environment" where
  "once ev h env = env\<lparr>listeners := listeners env @ [(ev, True, h)]\<rparr>"

text \<open>
  \<^verbatim>\<open>resolve\<close> and \<^verbatim>\<open>reject\<close> of a promise: only the first call settles it.
\<close>

definition settle :: "nat \<Rightarrow> promise_state \<Rightarrow> environment \<Rightarrow> environment" where
  "settle p st env =
     (if p < length (promises env) \<and> promises env ! p = Unsettled
      then env\<lparr>promises := (promises env)[p := st]\<rparr> else env)"

fun arg0 :: "jsval list \<Rightarrow> jsval" where
  "arg0 [] = Undefined"
| "arg0 (a # as) = a"

fun run_handler :: "handler \<Rightarrow> jsval list \<Rightarrow> environment \<Rightarrow> environment" where
  "run_handler (RejectRun p) args env = settle p (Rejected (arg0 args)) env"
| "run_handler (ResolveWith p) args env = settle p (Resolved (arg0 args)) env"
| "run_handler (ResolveEnd p) args env = settle p (Resolved Undefined) env"
| "run_handler (GeneratorEmit g ev) args env = env\<lparr>gen_emitted := gen_emitted env @ [(g, ev)]\<rparr>"

text \<open>
  \<^verbatim>\<open>this.emit(ev, ...args)\<close>: the listeners registered for the event are called in the
  order of registration, those added with \<^verbatim>\<open>once\<close> being removed. An
  \<^verbatim>\<open>error\<close> event without a listener is thrown to the caller of \<^verbatim>\<open>emit\<close>; the
  first component of the result is the thrown value.
\<close>

definition emit :: "string \<Rightarrow> jsval list \<Rightarrow> environment \<Rightarrow> jsval option \<times> environment" where
  "emit ev args env =
     (let hs = listeners_for ev (listeners env);
          env1 = env\<lparr>listeners := remove_once ev (listeners env),
                     emitted := emitted env @ [(ev, args)]\<rparr>
      in if ev = ''error'' \<and> hs = [] then (Some (arg0 args), env1)
         else (None, foldl (\<lambda>e h. run_handler h args e) env1 hs))"

definition adapter_close :: "environment \<Rightarrow> environment" where
  "adapter_close env = env\<lparr>adapter := (adapter env)\<lparr>closed := Suc (closed (adapter env))\<rparr>\<rparr>"

fun run_rl_handler :: "rl_handler \<Rightarrow> jsval list \<Rightarrow> environment \<Rightarrow> jsval option \<times> environment" where
  "run_rl_handler ForwardError args env =
     (case emit ''error'' [arg0 args] env of
        (Some e, env') \<Rightarrow> (Some e, env')
      | (None, env') \<Rightarrow> (None, adapter_close env'))"
| "run_rl_handler ForwardPaused args env = emit ''paused'' [] env"
| "run_rl_handler ForwardEnd args env = emit ''end'' [] env"

fun run_rl_handlers ::
  "rl_handler list \<Rightarrow> jsval list \<Rightarrow> environment \<Rightarrow> jsval option \<times> environment" where
  "run_rl_handlers [] args env = (None, env)"
| "run_rl_handlers (h # hs) args env =
     (case run_rl_handler h args env of
        (Some e, env') \<Rightarrow> (Some e, env')
      | (None, env') \<Rightarrow> run_rl_handlers hs args env')"

text \<open>\<^verbatim>\<open>this.runLoop.on\<close>, \<^verbatim>\<open>this.runLoop.once\<close> and the run loop's own \<^verbatim>\<open>emit\<close>.\<close>

definition runLoop_on :: "string \<Rightarrow> rl_handler \<Rightarrow> environment \<Rightarrow> environment" where
  "runLoop_on ev h env =
     env\<lparr>runLoop := (runLoop env)\<lparr>rl_listeners := rl_listeners (runLoop env) @ [(ev, False, h)]\<rparr>\<rparr>"

definition runLoop_once :: "string \<Rightarrow> rl_handler \<Rightarrow> environment \<Rightarrow> environment" where
  "runLoop_once ev h env =
     env\<lparr>runLoop := (runLoop env)\<lparr>rl_listeners := rl_listeners (runLoop env) @ [(ev, True, h)]\<rparr>\<rparr>"

definition runLoop_emit :: "string \<Rightarrow> jsval list \<Rightarrow> environment \<Rightarrow> jsval option \<times> environment" where
  "runLoop_emit ev args env =
     (let hs = listeners_for ev (rl_listeners (runLoop env));
          env1 = env\<lparr>runLoop := (runLoop env)\<lparr>rl_listeners :=
                                      remove_once ev (rl_listeners (runLoop env))\<rparr>\<rparr>
      in if ev = ''error'' \<and> hs = [] then (Some (arg0 args), env1)
         else run_rl_handlers hs args env1)"

section \<open>Queueing tasks\<close>

text \<open>
  Modelled from the spec: \<^verbatim>\<open>GroupedQueue.add\<close> (section 4.4, \<^verbatim>\<open>queueTask\<close>, and the
  task invariant of section 3). A task is appended to the named sub-queue; a task with a
  once-key is dropped when a pending task of that sub-queue has the same key; with
  \<open>run\<close> an idle scheduler begins running. The once-key is compared with the pending
  tasks only: the commit task of \<^verbatim>\<open>queueCommit\<close> queues itself again under its own
  key after it has run, as section 4.5 requires. Adding to a sub-queue that does not exist
  is an error (\<open>None\<close>).
\<close>

definition sq_push :: "queued \<Rightarrow> queued list \<Rightarrow> queued list" where
  "sq_push t ts = (if q_once t \<noteq> None \<and> q_once t \<in> q_once ` set ts then ts else ts @ [t])"

definition rl_add ::
  "string \<Rightarrow> task \<Rightarrow> string option \<Rightarrow> bool \<Rightarrow> grouped_queue \<Rightarrow> grouped_queue option" where
  "rl_add name t once_key run q =
     (if name \<notin> fst ` set (sub_queues q) then None
      else
        (let q1 = q\<lparr>sub_queues :=
                      map (\<lambda>(n, ts). if n = name
                                      then (n, sq_push \<lparr>q_task = t, q_once = once_key\<rparr> ts)
                                      else (n, ts))
                          (sub_queues q)\<rparr>
         in Some (if run \<and> rl_state q1 = Idle then q1\<lparr>rl_state := Running\<rparr> else q1)))"

text \<open>
  \<^verbatim>\<open>queueTask(priority, task, options)\<close>: \<^verbatim>\<open>this.runLoop.add\<close> with
  \<^verbatim>\<open>options?.once\<close> and \<^verbatim>\<open>options?.startQueue ?? false\<close>. The wrapper it puts
  around the task is \<open>task_wrapper\<close> below, applied when the task runs.
\<close>

definition queueTask ::
  "string \<Rightarrow> task \<Rightarrow> string option \<Rightarrow> bool option \<Rightarrow> environment \<Rightarrow> jsval option \<times> environment" where
  "queueTask priority t once_key startQueue env =
     (case rl_add priority t once_key (case startQueue of None \<Rightarrow> False | Some b \<Rightarrow> b)
             (runLoop env) of
        None \<Rightarrow> (Some (TypeError ''Cannot read properties of undefined''), env)
      | Some q \<Rightarrow> (None, env\<lparr>runLoop := q\<rparr>))"

text \<open>
  \<^verbatim>\<open>queueCommit()\<close>. The method only calls its inner closure of the same name, which
  queues the commit task under the once-key; the closure is also the listener
  \<open>QueueCommit\<close>.
\<close>

definition queueCommit :: "environment \<Rightarrow> jsval option \<times> environment" where
  "queueCommit env =
     queueTask ''environment:conflicts'' CommitTask (Some ''write memory fs to disk'') None env"

definition queuePackageManagerInstall :: "environment \<Rightarrow> jsval option \<times> environment" where
  "queuePackageManagerInstall env =
     queueTask ''install'' InstallTask (Some ''package manager install'') None env"

section \<open>The staged filesystem\<close>

fun run_fs_handlers :: "fs_handler list \<Rightarrow> environment \<Rightarrow> jsval option \<times> environment" where
  "run_fs_handlers [] env = (None, env)"
| "run_fs_handlers (QueueCommit # hs) env =
     (case queueCommit env of
        (Some e, env') \<Rightarrow> (Some e, env')
      | (None, env') \<Rightarrow> run_fs_handlers hs env')"

definition sharedFs_once :: "string \<Rightarrow> fs_handler \<Rightarrow> environment \<Rightarrow> environment" where
  "sharedFs_once ev h env =
     env\<lparr>sharedFs := (sharedFs env)\<lparr>fs_listeners := fs_listeners (sharedFs env) @ [(ev, True, h)]\<rparr>\<rparr>"

definition sharedFs_emit :: "string \<Rightarrow> environment \<Rightarrow> jsval option \<times> environment" where
  "sharedFs_emit ev env =
     (let hs = listeners_for ev (fs_listeners (sharedFs env));
          env1 = env\<lparr>sharedFs := (sharedFs env)\<lparr>fs_listeners :=
                                      remove_once ev (fs_listeners (sharedFs env))\<rparr>\<rparr>
      in run_fs_handlers hs env1)"

text \<open>
  Staging a write (\<^verbatim>\<open>fs.write(path, contents)\<close> of the editor over the shared store):
  the file at the path becomes pending with the new contents, keeping its place in the
  store or joining it at the end, and the store emits \<^verbatim>\<open>change\<close>.
\<close>

fun put_file :: "string \<Rightarrow> string \<Rightarrow> staged_file list \<Rightarrow> staged_file list" where
  "put_file p c [] = [\<lparr>f_path = p, f_contents = c, f_state = Pending, f_conflicter = None\<rparr>]"
| "put_file p c (f # fs) =
     (if f_path f = p
      then \<lparr>f_path = p, f_contents = c, f_state = Pending, f_conflicter = None\<rparr> # fs
      else f # put_file p c fs)"

definition stage_write :: "string \<Rightarrow> string \<Rightarrow> environment \<Rightarrow> jsval option \<times> environment" where
  "stage_write p c env =
     sharedFs_emit ''change''
       (env\<lparr>sharedFs := (sharedFs env)\<lparr>files := put_file p c (files (sharedFs env))\<rparr>\<rparr>)"

section \<open>The commit pipeline\<close>

text \<open>
  The pattern \<^verbatim>\<open>**/{.yo-rc.json,.yo-resolve,.yo-rc-global.json}\<close> of the first transform
  of \<^verbatim>\<open>commitSharedFs\<close>, read as a glob: a path matches when its last segment is one
  of the three names.
\<close>

definition basename_of :: "string \<Rightarrow> string" where
  "basename_of p = rev (takeWhile (\<lambda>c. c \<noteq> CHR ''/'') (rev p))"

definition control_file :: "string \<Rightarrow> bool" where
  "control_file p =
     (basename_of p = ''.yo-rc.json'' \<or> basename_of p = ''.yo-resolve''
      \<or> basename_of p = ''.yo-rc-global.json'')"

text \<open>The \<^verbatim>\<open>passthrough\<close> of \<^verbatim>\<open>commitSharedFs\<close>: \<^verbatim>\<open>file.conflicter = 'force'\<close>.\<close>

definition mark_force :: "staged_file \<Rightarrow> staged_file" where
  "mark_force f = (if control_file (f_path f) then f\<lparr>f_conflicter := Some ''force''\<rparr> else f)"

text \<open>
  Modelled from the spec: the transforms \<^verbatim>\<open>createYoResolveTransform\<close>,
  \<^verbatim>\<open>createConflicterTransform\<close> and \<^verbatim>\<open>createCommitTransform\<close> are not among the
  sources; they follow steps 3 to 5 of section 4.5.
  \<^item> Step 3 (\<open>yo_resolve\<close>): a file without a marker takes the decision the persisted
    resolution file holds for its path.
  \<^item> Step 4 (\<open>resolve_conflict\<close>): a file that still has no marker and whose target
    differs on disk is overwritten under the force policy, skipped under the dry-run
    policy, and otherwise decided by the answer of the adapter, which is asked; the answer
    to abort throws.
  \<^item> Step 5 (\<open>commit_file\<close>): a file that is not skipped is written to disk, and the
    staged file is marked committed.
\<close>

definition yo_resolve :: "(string \<Rightarrow> decision option) \<Rightarrow> staged_file \<Rightarrow> staged_file" where
  "yo_resolve rf f =
     (if f_conflicter f \<noteq> None then f
      else (case rf (f_path f) of
              Some Overwrite \<Rightarrow> f\<lparr>f_conflicter := Some ''force''\<rparr>
            | Some Skip \<Rightarrow> f\<lparr>f_conflicter := Some ''skip''\<rparr>
            | _ \<Rightarrow> f))"

definition resolve_conflict ::
  "run_options \<Rightarrow> (string \<Rightarrow> string option) \<Rightarrow> adapter \<Rightarrow> staged_file
   \<Rightarrow> jsval option \<times> staged_file \<times> adapter" where
  "resolve_conflict opts dk ad f =
     (if f_conflicter f \<noteq> None then (None, f, ad)
      else if (case dk (f_path f) of None \<Rightarrow> True | Some c \<Rightarrow> c = f_contents f)
        then (None, f, ad)
      else if force opts = Some True then (None, f\<lparr>f_conflicter := Some ''force''\<rparr>, ad)
      else if dryRun opts = Some True then (None, f\<lparr>f_conflicter := Some ''skip''\<rparr>, ad)
      else
        (let ad' = ad\<lparr>prompts := prompts ad @ [f_path f]\<rparr>
         in case answer ad (f_path f) of
              Overwrite \<Rightarrow> (None, f\<lparr>f_conflicter := Some ''force''\<rparr>, ad')
            | Skip \<Rightarrow> (None, f\<lparr>f_conflicter := Some ''skip''\<rparr>, ad')
            | AbortAll \<Rightarrow> (Some (Error ''Process aborted by conflict''), f, ad')))"

definition commit_file ::
  "staged_file \<Rightarrow> (string \<Rightarrow> string option) \<Rightarrow> staged_file \<times> (string \<Rightarrow> string option)" where
  "commit_file f dk =
     (if f_conflicter f = Some ''skip'' then (f\<lparr>f_state := Committed\<rparr>, dk)
      else (f\<lparr>f_state := Committed\<rparr>, dk(f_path f \<mapsto> f_contents f)))"

text \<open>
  The stream of \<^verbatim>\<open>commitSharedFs\<close>: the pending files of the store
  (\<^verbatim>\<open>isFilePending\<close>), each going through the four transforms in the order of the
  source. A throw ends the stream; the files not yet reached stay as they are.
\<close>

fun commit_files ::
  "run_options \<Rightarrow> (string \<Rightarrow> decision option) \<Rightarrow> staged_file list \<Rightarrow> adapter
   \<Rightarrow> (string \<Rightarrow> string option)
   \<Rightarrow> jsval option \<times> staged_file list \<times> adapter \<times> (string \<Rightarrow> string option)" where
  "commit_files opts rf [] ad dk = (None, [], ad, dk)"
| "commit_files opts rf (f # fs) ad dk =
     (if f_state f \<noteq> Pending then
        (case commit_files opts rf fs ad dk of
           (r, fs', ad', dk') \<Rightarrow> (r, f # fs', ad', dk'))
      else
        (case resolve_conflict opts dk ad (yo_resolve rf (mark_force f)) of
           (Some e, f', ad') \<Rightarrow> (Some e, f # fs, ad', dk)
         | (None, f', ad') \<Rightarrow>
             (case commit_file f' dk of
                (f'', dk') \<Rightarrow>
                  (case commit_files opts rf fs ad' dk' of
                     (r, fs', ad'', dk'') \<Rightarrow> (r, f'' # fs', ad'', dk'')))))"

definition no_options :: run_options where
  "no_options = \<lparr>force = None, bail = None, ignoreWhitespace = None, dryRun = None,
                  skipYoResolve = None, logCwd = None, cwd_opt = None, help_opt = None\<rparr>"

text \<open>
  \<^verbatim>\<open>commitSharedFs()\<close> with its default stream. The conflicter is made from
  \<^verbatim>\<open>this.conflicterOptions\<close>, which is \<^verbatim>\<open>undefined\<close> before the first
  \<^verbatim>\<open>start\<close>.
\<close>

definition commitSharedFs :: "environment \<Rightarrow> jsval option \<times> environment" where
  "commitSharedFs env =
     (case commit_files (case conflicterOptions env of None \<Rightarrow> no_options | Some c \<Rightarrow> c)
             (resolution_file env) (files (sharedFs env)) (adapter env) (disk env) of
        (r, fs', ad', dk') \<Rightarrow>
          (r, env\<lparr>sharedFs := (sharedFs env)\<lparr>files := fs'\<rparr>, adapter := ad', disk := dk'\<rparr>))"

section \<open>Tasks\<close>

text \<open>
  The task of \<^verbatim>\<open>queueCommit\<close>. \<^verbatim>\<open>customCommitTask\<close> of the composed store defaults to
  \<^verbatim>\<open>commitSharedFs\<close> when it is \<^verbatim>\<open>undefined\<close>; when it is not a function the task
  returns at once. After the commit the task subscribes the closure, once, to the
  \<^verbatim>\<open>change\<close> event of the shared filesystem.
\<close>

definition commit_task :: "environment \<Rightarrow> jsval option \<times> environment" where
  "commit_task env =
     (case customCommitTask (composedStore env) of
        Some NotAFunction \<Rightarrow> (None, env)
      | Some (CustomFunction (Some e)) \<Rightarrow> (Some e, env)
      | Some (CustomFunction None) \<Rightarrow> (None, sharedFs_once ''change'' QueueCommit env)
      | None \<Rightarrow>
          (case commitSharedFs env of
             (Some e, env') \<Rightarrow> (Some e, env')
           | (None, env') \<Rightarrow> (None, sharedFs_once ''change'' QueueCommit env')))"

text \<open>
  The task of \<^verbatim>\<open>queuePackageManagerInstall\<close>. Modelled from the spec:
  \<^verbatim>\<open>packageManagerInstallTask\<close> of \<^verbatim>\<open>./package-manager.js\<close> is not among the sources;
  by section 7 a failure of the installation is recoverable and does not fail the run, so
  the task counts the installation and returns.
\<close>

definition install_task :: "environment \<Rightarrow> jsval option \<times> environment" where
  "install_task env =
     (if compatibilityMode env = Some CompatV4 then (None, env)
      else (None, env\<lparr>install_runs := Suc (install_runs env)\<rparr>))"

text \<open>
  What a generator does in \<^verbatim>\<open>queueTasks()\<close>: it queues its tasks through
  \<^verbatim>\<open>env.queueTask\<close>, and a throw of one of the calls, or its own, rejects the call.
\<close>

fun queue_all :: "(string \<times> user_task) list \<Rightarrow> environment \<Rightarrow> jsval option \<times> environment" where
  "queue_all [] env = (None, env)"
| "queue_all (pt # ts) env =
     (case queueTask (fst pt) (User (snd pt)) None None env of
        (Some e, env') \<Rightarrow> (Some e, env')
      | (None, env') \<Rightarrow> queue_all ts env')"

definition generator_queueTasks :: "generator \<Rightarrow> environment \<Rightarrow> jsval option \<times> environment" where
  "generator_queueTasks g env =
     (case queue_all (gen_tasks g) env of
        (Some e, env') \<Rightarrow> (Some e, env')
      | (None, env') \<Rightarrow> (gen_queueTasks_throws g, env'))"

text \<open>The closure \<^verbatim>\<open>runGenerator\<close> inside \<^verbatim>\<open>queueGenerator\<close>.\<close>

definition runGenerator_closure :: "generator \<Rightarrow> environment \<Rightarrow> jsval option \<times> environment" where
  "runGenerator_closure g env =
     (if gen_has_queueTasks g then
        generator_queueTasks g
          (once ''end'' (GeneratorEmit (gen_ref g) ''end'')
             (once ''run'' (GeneratorEmit (gen_ref g) ''run'') env))
      else
        (let env1 = (if \<not> gen_forwardErrorToEnvironment g
                     then env\<lparr>gen_listeners := gen_listeners env @ [gen_ref g]\<rparr> else env)
         in (None, env1\<lparr>gen_promise := gen_promise env1 @ [(gen_ref g, gen_run_result g)]\<rparr>)))"

fun stage_all :: "(string \<times> string) list \<Rightarrow> environment \<Rightarrow> jsval option \<times> environment" where
  "stage_all [] env = (None, env)"
| "stage_all (w # ws) env =
     (case stage_write (fst w) (snd w) env of
        (Some e, env') \<Rightarrow> (Some e, env')
      | (None, env') \<Rightarrow> stage_all ws env')"

fun run_user_task :: "user_task \<Rightarrow> environment \<Rightarrow> jsval option \<times> environment" where
  "run_user_task (UserTask ws thr) env =
     (case stage_all ws env of
        (Some e, env') \<Rightarrow> (Some e, env')
      | (None, env') \<Rightarrow> (thr, env'))"

fun run_task :: "task \<Rightarrow> environment \<Rightarrow> jsval option \<times> environment" where
  "run_task CommitTask env = commit_task env"
| "run_task InstallTask env = install_task env"
| "run_task (RunGenerator g) env = runGenerator_closure g env"
| "run_task (User t) env = run_user_task t env"

text \<open>
  The function \<^verbatim>\<open>queueTask\<close> gives to the run loop:
  \<^verbatim>\<open>async (done, stop) => { try { await task(); done(); } catch (error) { stop(error); } }\<close>.
  The result tells which of the two callbacks it called.
\<close>

datatype callback = Done | Stop jsval

definition task_wrapper :: "task \<Rightarrow> environment \<Rightarrow> callback \<times> environment" where
  "task_wrapper t env =
     (case run_task t env of
        (None, env') \<Rightarrow> (Done, env')
      | (Some e, env') \<Rightarrow> (Stop e, env'))"

section \<open>The scheduler\<close>

text \<open>
  Modelled from the spec: the scheduling of \<^verbatim>\<open>GroupedQueue\<close> (section 4.4). A step of
  the running scheduler takes the first pending task of the first sub-queue that has one
  and runs it; when the task calls \<^verbatim>\<open>done\<close> the scheduler goes on, when it calls
  \<^verbatim>\<open>stop\<close> the scheduler becomes paused and emits \<^verbatim>\<open>paused\<close> and
  \<^verbatim>\<open>error\<close> with the error; when nothing is pending anywhere it becomes ended and emits
  \<^verbatim>\<open>end\<close>. A scheduler that is not running does nothing. \<^verbatim>\<open>start()\<close> makes a
  scheduler that has not ended run. A value thrown out of a listener ends up in
  \<open>uncaught\<close>.
\<close>

fun next_task ::
  "(string \<times> queued list) list \<Rightarrow> (queued \<times> (string \<times> queued list) list) option" where
  "next_task [] = None"
| "next_task ((n, []) # qs) =
     (case next_task qs of None \<Rightarrow> None | Some (t, qs') \<Rightarrow> Some (t, (n, []) # qs'))"
| "next_task ((n, t # ts) # qs) = Some (t, (n, ts) # qs)"

definition rl_start :: "grouped_queue \<Rightarrow> grouped_queue" where
  "rl_start q = (if rl_state q = Ended then q else q\<lparr>rl_state := Running\<rparr>)"

definition set_rl_state :: "rl_state \<Rightarrow> environment \<Rightarrow> environment" where
  "set_rl_state st env = env\<lparr>runLoop := (runLoop env)\<lparr>rl_state := st\<rparr>\<rparr>"

definition catch_uncaught :: "jsval option \<times> environment \<Rightarrow> environment" where
  "catch_uncaught r =
     (case r of (None, env) \<Rightarrow> env | (Some e, env) \<Rightarrow> env\<lparr>uncaught := uncaught env @ [e]\<rparr>)"

definition rl_stop :: "jsval \<Rightarrow> environment \<Rightarrow> environment" where
  "rl_stop e env =
     (case runLoop_emit ''paused'' [] (set_rl_state Paused env) of
        (Some x, env') \<Rightarrow> env'\<lparr>uncaught := uncaught env' @ [x]\<rparr>
      | (None, env') \<Rightarrow> catch_uncaught (runLoop_emit ''error'' [e] env'))"

definition runLoop_step :: "environment \<Rightarrow> environment" where
  "runLoop_step env =
     (if rl_state (runLoop env) \<noteq> Running then env
      else (case next_task (sub_queues (runLoop env)) of
              None \<Rightarrow> catch_uncaught (runLoop_emit ''end'' [] (set_rl_state Ended env))
            | Some (t, qs) \<Rightarrow>
                (case task_wrapper (q_task t) (env\<lparr>runLoop := (runLoop env)\<lparr>sub_queues := qs\<rparr>\<rparr>) of
                   (Done, env') \<Rightarrow> env'
                 | (Stop e, env') \<Rightarrow> rl_stop e env')))"

section \<open>Composing and running generators\<close>

text \<open>
  Modelled from the spec: \<^verbatim>\<open>ComposedStore.addGenerator\<close> (section 4.3). The identifier
  is derived from the instance; an identifier that is stored already gives
  \<open>added = False\<close> and the stored instance, a new one is stored and gives
  \<open>added = True\<close>. The result is \<open>(added, identifier, generator)\<close> and the store.
\<close>

definition addGenerator ::
  "generator \<Rightarrow> composed_store \<Rightarrow> (bool \<times> string \<times> generator) \<times> composed_store" where
  "addGenerator g cs =
     (case map_of (cs_generators cs) (gen_identifier g) of
        Some g0 \<Rightarrow> ((False, gen_identifier g, g0), cs)
      | None \<Rightarrow> ((True, gen_identifier g, g),
                 cs\<lparr>cs_generators := cs_generators cs @ [(gen_identifier g, g)]\<rparr>))"

text \<open>
  The second argument of \<^verbatim>\<open>queueGenerator\<close>: a boolean, an object with an optional
  \<^verbatim>\<open>schedule\<close>, or nothing.
\<close>

datatype queue_options = QBool bool | QObject "bool option" | QUndefined

fun schedule_of :: "queue_options \<Rightarrow> bool" where
  "schedule_of (QBool b) = b"
| "schedule_of (QObject (Some b)) = b"
| "schedule_of (QObject None) = False"
| "schedule_of QUndefined = False"

text \<open>
  \<^verbatim>\<open>queueGenerator(generator, queueOptions)\<close>. The result is the value the returned
  promise settles to, \<open>Inl\<close> for a rejection, and the state.
\<close>

definition queueGenerator ::
  "generator \<Rightarrow> queue_options \<Rightarrow> environment \<Rightarrow> (jsval + generator) \<times> environment" where
  "queueGenerator g queueOptions env =
     (case addGenerator g (composedStore env) of
        ((added, identifier, composedGenerator), cs) \<Rightarrow>
          (if \<not> added then (Inr composedGenerator, env\<lparr>composedStore := cs\<rparr>)
           else
             (let env1 = snd (emit ''compose'' [Str identifier, Ref (gen_ref g)]
                                (env\<lparr>composedStore := cs\<rparr>));
                  env2 = snd (emit (''compose:'' @ identifier) [Ref (gen_ref g)] env1)
              in case (if schedule_of queueOptions
                       then queueTask ''environment:run'' (RunGenerator g) None None env2
                       else runGenerator_closure g env2) of
                   (Some e, env3) \<Rightarrow> (Inl e, env3)
                 | (None, env3) \<Rightarrow> (Inr g, env3))))"

text \<open>
  \<^verbatim>\<open>pick(defaults({}, this.options, options), [...])\<close> of \<^verbatim>\<open>start\<close>, followed by
  \<^verbatim>\<open>this.conflicterOptions.cwd = this.conflicterOptions.logCwd\<close>: a key of the
  environment's options wins over the same key of the argument.
\<close>

definition defaults_to :: "'a option \<Rightarrow> 'a option \<Rightarrow> 'a option" where
  "defaults_to a b = (case a of None \<Rightarrow> b | Some x \<Rightarrow> Some x)"

definition pick_conflicter_options :: "run_options \<Rightarrow> run_options \<Rightarrow> run_options" where
  "pick_conflicter_options this_options opts =
     \<lparr>force = defaults_to (force this_options) (force opts),
      bail = defaults_to (bail this_options) (bail opts),
      ignoreWhitespace = defaults_to (ignoreWhitespace this_options) (ignoreWhitespace opts),
      dryRun = defaults_to (dryRun this_options) (dryRun opts),
      skipYoResolve = defaults_to (skipYoResolve this_options) (skipYoResolve opts),
      logCwd = defaults_to (logCwd this_options) (logCwd opts),
      cwd_opt = defaults_to (logCwd this_options) (logCwd opts),
      help_opt = None\<rparr>"

text \<open>
  \<^verbatim>\<open>start(options)\<close>. The result is the promise it returns and the state. The body is
  the executor of the promise: a throw in it rejects the promise. \<^verbatim>\<open>this.conflicter\<close>
  is assigned nowhere in the sources, so the first branch is taken on every call.
\<close>

definition start :: "run_options \<Rightarrow> environment \<Rightarrow> nat \<times> environment" where
  "start opts env =
     (let p = length (promises env);
          env0 = env\<lparr>promises := promises env @ [Unsettled]\<rparr>;
          armed =
            (if conflicter env0 = None then
               (case queueCommit
                       (env0\<lparr>conflicterOptions :=
                               Some (pick_conflicter_options (options env0) opts)\<rparr>) of
                  (Some e, env') \<Rightarrow> (Some e, env')
                | (None, env') \<Rightarrow> queuePackageManagerInstall env')
             else (None, env0))
      in case armed of
           (Some e, env1) \<Rightarrow> (p, settle p (Rejected e) env1)
         | (None, env1) \<Rightarrow>
             (let env2 = on ''error'' (RejectRun p) env1;
                  env3 = on ''generator:reject'' (RejectRun p) env2;
                  env4 = on ''generator:resolve'' (ResolveWith p) env3;
                  env5 = runLoop_on ''error'' ForwardError env4;
                  env6 = runLoop_on ''paused'' ForwardPaused env5;
                  env7 = once ''end'' (ResolveEnd p) env6;
                  env8 = runLoop_once ''end'' ForwardEnd env7;
                  env9 = snd (emit ''run'' [] env8)
              in (p, env9\<lparr>runLoop := rl_start (runLoop env9)\<rparr>)))"

text \<open>
  \<^verbatim>\<open>runGenerator(generator)\<close>: the promise of \<^verbatim>\<open>start\<close>, or the rejection of
  \<^verbatim>\<open>queueGenerator\<close>.
\<close>

definition runGenerator :: "generator \<Rightarrow> environment \<Rightarrow> (jsval + nat) \<times> environment" where
  "runGenerator g env =
     (case queueGenerator g QUndefined env of
        (Inl e, env1) \<Rightarrow> (Inl e, env1)
      | (Inr g', env1) \<Rightarrow>
          (let env2 = env1\<lparr>compatibilityMode :=
                             Some (if gen_has_queueTasks g' then CompatFalse else CompatV4),
                           private_rootGenerator :=
                             (case private_rootGenerator env1 of
                                None \<Rightarrow> Some g' | Some r \<Rightarrow> Some r)\<rparr>
           in case start (gen_options g') env2 of (p, env3) \<Rightarrow> (Inr p, env3)))"

definition rootGenerator :: "environment \<Rightarrow> generator option" where
  "rootGenerator env = private_rootGenerator env"

section \<open>The constructor\<close>

text \<open>
  \<^verbatim>\<open>new Environment(options)\<close>. What the constructor takes from outside is given by
  the first arguments: the names of \<^verbatim>\<open>defaultQueues\<close> (the constant of
  \<^verbatim>\<open>./constants.js\<close>, which is not among the sources), whether
  \<^verbatim>\<open>process.argv\<close> holds \<^verbatim>\<open>--experimental\<close>, the answers of the adapter, the disk
  and the persisted resolution file. Then come the \<^verbatim>\<open>experimental\<close> option and the
  remaining options. The run loop gets one empty sub-queue for each name and does not
  run on add; the last statement registers the default alias rule, with the object its
  \<^verbatim>\<open>RegExp\<close> literal makes.
\<close>

definition new_Environment ::
  "string list \<Rightarrow> bool \<Rightarrow> (string \<Rightarrow> decision) \<Rightarrow> (string \<Rightarrow> string option)
   \<Rightarrow> (string \<Rightarrow> decision option) \<Rightarrow> bool option \<Rightarrow> run_options \<Rightarrow> environment" where
  "new_Environment defaultQueues argv_experimental answers dk rf experimental_opt opts =
     (let env =
        \<lparr>aliases = [],
         regexps = [],
         experimental = (experimental_opt = Some True \<or> argv_experimental),
         options = opts,
         store = [],
         listeners = [],
         emitted = [],
         uncaught = [],
         runLoop = \<lparr>sub_queues = map (\<lambda>n. (n, [])) (remdups defaultQueues),
                    rl_state = Idle, rl_listeners = []\<rparr>,
         composedStore = \<lparr>cs_generators = [], customCommitTask = None\<rparr>,
         sharedFs = \<lparr>files = [], fs_listeners = []\<rparr>,
         disk = dk,
         resolution_file = rf,
         adapter = \<lparr>closed = 0, answer = answers, prompts = []\<rparr>,
         private_rootGenerator = None,
         compatibilityMode = None,
         conflicter = None,
         conflicterOptions = None,
         promises = [],
         gen_listeners = [],
         gen_emitted = [],
         gen_promise = [],
         install_runs = 0,
         prepare_calls = []\<rparr>
      in case new_RegExp rx_no_colon env of
           (a, env1) \<Rightarrow> snd (alias_fn (\<lambda>src. None) (ARegExp a) (Some ''$1:app'') env1))"

section \<open>What can happen to an environment\<close>

text \<open>
  A generator emits \<^verbatim>\<open>error\<close>: each forwarder
  \<^verbatim>\<open>error => this.emit('error', error)\<close> registered on it by \<^verbatim>\<open>queueGenerator\<close> runs.
\<close>

fun forward_errors :: "nat list \<Rightarrow> jsval \<Rightarrow> environment \<Rightarrow> jsval option \<times> environment" where
  "forward_errors [] e env = (None, env)"
| "forward_errors (g # gs) e env =
     (case emit ''error'' [e] env of
        (Some x, env') \<Rightarrow> (Some x, env')
      | (None, env') \<Rightarrow> forward_errors gs e env')"

definition generator_error :: "nat \<Rightarrow> jsval \<Rightarrow> environment \<Rightarrow> environment" where
  "generator_error g e env =
     catch_uncaught (forward_errors (filter (\<lambda>r. r = g) (gen_listeners env)) e env)"

text \<open>
  The calls and events an environment can meet during its life, one at a time (the
  scheduler runs one task at a time and nothing else runs meanwhile): the calls of its
  methods by generators and by the caller, a step of the scheduler, an event emitted on
  the environment from outside (for instance \<^verbatim>\<open>generator:resolve\<close>), an \<^verbatim>\<open>error\<close>
  event of a generator, and a write staged outside of a task. \<open>exec_op\<close> keeps the state
  and drops the value returned to the caller.
\<close>

datatype op =
    OpQueueGenerator generator queue_options
  | OpRunGenerator generator
  | OpStart run_options
  | OpQueueTask string user_task "string option" "bool option"
  | OpStep
  | OpEmit string "jsval list"
  | OpGeneratorError nat jsval
  | OpWrite string string

fun exec_op :: "op \<Rightarrow> environment \<Rightarrow> environment" where
  "exec_op (OpQueueGenerator g qo) env = snd (queueGenerator g qo env)"
| "exec_op (OpRunGenerator g) env = snd (runGenerator g env)"
| "exec_op (OpStart opts) env = snd (start opts env)"
| "exec_op (OpQueueTask priority t once_key startQueue) env =
     snd (queueTask priority (User t) once_key startQueue env)"
| "exec_op OpStep env = runLoop_step env"
| "exec_op (OpEmit ev args) env = snd (emit ev args env)"
| "exec_op (OpGeneratorError g e) env = generator_error g e env"
| "exec_op (OpWrite p c) env = snd (stage_write p c env)"

definition exec_ops :: "op list \<Rightarrow> environment \<Rightarrow> environment" where
  "exec_ops ops env = foldl (\<lambda>e x. exec_op x e) env ops"

section \<open>Resolving and running a generator by name\<close>

text \<open>
  What \<^verbatim>\<open>get\<close>, \<^verbatim>\<open>create\<close> and \<^verbatim>\<open>run\<close> call outside of the sources, as
  parameters: \<^verbatim>\<open>toNamespace\<close> (the namespace of a string that parses as one),
  \<^verbatim>\<open>resolveModulePath\<close>, \<^verbatim>\<open>asNamespace\<close> with the lookups of the environment, the
  loading of a factory from a resolved location, \<^verbatim>\<open>instantiate\<close> (a stub in
  \<^verbatim>\<open>EnvironmentBase\<close>), \<^verbatim>\<open>lookupLocalNamespaces\<close>, and the compiler of pattern
  sources for \<^verbatim>\<open>alias\<close>.
\<close>

record externals =
  ext_RegExp_new ::
    "string \<Rightarrow> (string \<Rightarrow> nat \<Rightarrow> (nat \<times> string option list
                 \<times> (string \<times> string option) list option) option) option"
  ext_toNamespace :: "string \<Rightarrow> string option"
  ext_resolveModulePath :: "string \<Rightarrow> string option"
  ext_asNamespace :: "string \<Rightarrow> string"
  ext_load :: "string \<Rightarrow> generator option"
  ext_instantiate :: "generator \<Rightarrow> string list \<Rightarrow> run_options \<Rightarrow> jsval + generator"
  ext_lookupLocalNamespaces :: "string \<Rightarrow> environment \<Rightarrow> environment"

text \<open>
  Modelled from the spec: \<^verbatim>\<open>Store.get\<close> and \<^verbatim>\<open>Store.add\<close> of \<^verbatim>\<open>./store.js\<close>
  (section 4.2). \<open>store_get\<close> gives the factory of a namespace, loading it from the
  resolved location when the entry has none; \<open>store_add\<close> is a no-op for a namespace
  registered with the same location and otherwise sets the location, keeping a factory
  the entry has.
\<close>

definition store_get :: "externals \<Rightarrow> string \<Rightarrow> environment \<Rightarrow> generator option" where
  "store_get ext ns env =
     (case map_of (store env) ns of
        None \<Rightarrow> None
      | Some m \<Rightarrow> (case meta_factory m of
                     Some f \<Rightarrow> Some f
                   | None \<Rightarrow> ext_load ext (meta_resolved m)))"

definition store_add :: "string \<Rightarrow> string \<Rightarrow> environment \<Rightarrow> environment" where
  "store_add ns location env =
     (case map_of (store env) ns of
        None \<Rightarrow> env\<lparr>store := store env @ [(ns, \<lparr>meta_resolved = location, meta_factory = None\<rparr>)]\<rparr>
      | Some m \<Rightarrow>
          (if meta_resolved m = location then env
           else env\<lparr>store := map (\<lambda>(n, x). if n = ns then (n, x\<lparr>meta_resolved := location\<rparr>)
                                           else (n, x)) (store env)\<rparr>))"

text \<open>
  An \<^verbatim>\<open>async\<close> function returns a promise, whatever the promise settles to; a
  promise is an object, and every object is truthy.
\<close>

datatype 'a js_promise = PromiseOf 'a

fun truthy_promise :: "'a js_promise \<Rightarrow> bool" where
  "truthy_promise (PromiseOf x) = True"

definition alias_of :: "externals \<Rightarrow> string \<Rightarrow> environment \<Rightarrow> string \<times> environment" where
  "alias_of ext s env =
     (case alias_fn (ext_RegExp_new ext) (AString s) None env of
        (Inr (ReturnString t), env') \<Rightarrow> (t, env')
      | (_, env') \<Rightarrow> (s, env'))"

text \<open>
  \<^verbatim>\<open>(await this.store.get(ns)) ?? this.store.get(this.alias(ns))\<close>: the alias is
  resolved only when the namespace itself is not registered.
\<close>

definition get_or_alias ::
  "externals \<Rightarrow> string \<Rightarrow> environment \<Rightarrow> generator option \<times> environment" where
  "get_or_alias ext ns env =
     (case store_get ext ns env of
        Some G \<Rightarrow> (Some G, env)
      | None \<Rightarrow> (case alias_of ext ns env of (t, env') \<Rightarrow> (store_get ext t env', env')))"

text \<open>
  \<^verbatim>\<open>get(namespaceOrPath)\<close> for a string: the promise it returns, with what the promise
  settles to, and the state (a resolved module path is added to the registry).
\<close>

definition get ::
  "externals \<Rightarrow> string \<Rightarrow> environment \<Rightarrow> generator option js_promise \<times> environment" where
  "get ext namespaceOrPath env =
     (if namespaceOrPath = [] then (PromiseOf None, env)
      else (case ext_toNamespace ext namespaceOrPath of
          Some ns \<Rightarrow>
            (case get_or_alias ext ns env of (maybeGenerator, env') \<Rightarrow>
               (PromiseOf maybeGenerator, env'))
        | None \<Rightarrow>
            (case get_or_alias ext namespaceOrPath env of
               (Some G, env') \<Rightarrow> (PromiseOf (Some G), env')
             | (None, env') \<Rightarrow>
                 (case ext_resolveModulePath ext namespaceOrPath of
                    None \<Rightarrow> (PromiseOf None, env')
                  | Some location \<Rightarrow>
                      (if location = [] then (PromiseOf None, env')
                       else
                         (let env'' = store_add (ext_asNamespace ext location) location env'
                          in (PromiseOf (store_get ext (ext_asNamespace ext location) env''),
                              env'')))))))"

text \<open>
  \<^verbatim>\<open>create(namespaceOrPath, args, options)\<close> with an array of arguments. The text of
  the \<^verbatim>\<open>TypeError\<close> for a generator that is not installed is abbreviated.
\<close>

definition create ::
  "externals \<Rightarrow> string \<Rightarrow> string list \<Rightarrow> run_options \<Rightarrow> environment
   \<Rightarrow> (jsval + generator) \<times> environment" where
  "create ext namespaceOrPath args opts env =
     (case get ext namespaceOrPath env of
        (maybeGenerator, env1) \<Rightarrow>
          (case (if \<not> truthy_promise maybeGenerator
                 then get ext namespaceOrPath
                        (ext_lookupLocalNamespaces ext namespaceOrPath env1)
                 else (maybeGenerator, env1)) of
             (PromiseOf None, env2) \<Rightarrow>
               (Inl (TypeError (''generator not installed: '' @ namespaceOrPath)), env2)
           | (PromiseOf (Some G), env2) \<Rightarrow>
               (case ext_instantiate ext G args opts of
                  Inl e \<Rightarrow> (Inl e, env2)
                | Inr g \<Rightarrow> (Inr g, env2))))"

text \<open>
  \<^verbatim>\<open>run(args, options)\<close> with an array of arguments. The result is \<open>Inl\<close> for a
  rejection, \<open>Inr None\<close> for \<^verbatim>\<open>undefined\<close> (after printing the help) and
  \<open>Inr (Some p)\<close> for the promise of \<^verbatim>\<open>runGenerator\<close>. A call of
  \<^verbatim>\<open>prepareEnvironment\<close>, a method that is not among the sources, is recorded in
  \<open>prepare_calls\<close>; what it throws is swallowed by the \<^verbatim>\<open>try\<close> around it.
\<close>

definition run ::
  "externals \<Rightarrow> string list \<Rightarrow> run_options \<Rightarrow> environment
   \<Rightarrow> (jsval + nat option) \<times> environment" where
  "run ext args opts env =
     (case args of
        [] \<Rightarrow> (Inl (Error ''Must provide at least one argument, the generator namespace to invoke.''),
               env)
      | name # rest \<Rightarrow>
          (if name = [] then
             (Inl (Error ''Must provide at least one argument, the generator namespace to invoke.''),
              env)
           else
             (let env1 =
                (if experimental env then
                   (case get ext name env of
                      (found, env') \<Rightarrow>
                        (if \<not> truthy_promise found
                         then env'\<lparr>prepare_calls := prepare_calls env' @ [name]\<rparr>
                         else env'))
                 else env)
              in case create ext name rest opts env1 of
                   (Inl e, env2) \<Rightarrow> (Inl e, env2)
                 | (Inr g, env2) \<Rightarrow>
                     (if help_opt opts = Some True then (Inr None, env2)
                      else (case runGenerator g env2 of
                              (Inl e, env3) \<Rightarrow> (Inl e, env3)
                            | (Inr p, env3) \<Rightarrow> (Inr (Some p), env3))))))"

section \<open>What a task leaves alone\<close>

text \<open>
  The part of the state that the body of a task, and everything else that only queues
  tasks, stages files or commits them, does not touch: the promises, the root generator,
  the listeners of the run loop, the count of \<^verbatim>\<open>adapter.close()\<close>, the events emitted
  and the values thrown so far; listeners of the environment are only added.
\<close>

definition task_frame :: "environment \<Rightarrow> environment \<Rightarrow> bool" where
  "task_frame env env' \<longleftrightarrow>
     promises env' = promises env
   \<and> private_rootGenerator env' = private_rootGenerator env
   \<and> rl_listeners (runLoop env') = rl_listeners (runLoop env)
   \<and> closed (adapter env') = closed (adapter env)
   \<and> emitted env' = emitted env
   \<and> uncaught env' = uncaught env
   \<and> set (listeners env) \<subseteq> set (listeners env')"

section \<open>The pending commit task\<close>



section \<open>Example data\<close>

text \<open>
  Concrete data for the examples below: sub-queue names in the order of the phases, an
  environment made by the constructor over an empty disk, with an adapter that answers
  every question with skip.
\<close>

definition example_queues :: "string list" where
  "example_queues = [''environment:run'', ''initializing'', ''writing'', ''conflicts'',
                     ''environment:conflicts'', ''install'']"

definition example_env :: environment where
  "example_env =
     new_Environment example_queues False (\<lambda>p. Skip) (\<lambda>p. None) (\<lambda>p. None) None no_options"

text \<open>
  Patterns of callers: \<^verbatim>\<open>/^bar$/\<close> (what \<^verbatim>\<open>new RegExp('^bar$')\<close> gives), \<^verbatim>\<open>/o/g\<close> and
  \<^verbatim>\<open>/a/y\<close>, and a compiler of pattern sources that knows the first of them.
\<close>

definition rx_bar :: regexp where
  "rx_bar = \<lparr> rx_matcher = (\<lambda>s i. if i = 0 \<and> s = ''bar'' then Some (3, [], None) else None),
              rx_global = False, rx_sticky = False, lastIndex = 0 \<rparr>"

definition rx_o_global :: regexp where
  "rx_o_global = \<lparr> rx_matcher = (\<lambda>s i. if i < length s \<and> s ! i = CHR ''o''
                                       then Some (1, [], None) else None),
                   rx_global = True, rx_sticky = False, lastIndex = 0 \<rparr>"

definition rx_a_sticky :: regexp where
  "rx_a_sticky = \<lparr> rx_matcher = (\<lambda>s i. if i < length s \<and> s ! i = CHR ''a''
                                       then Some (1, [], None) else None),
                   rx_global = False, rx_sticky = True, lastIndex = 0 \<rparr>"

definition compile_bar ::
  "string \<Rightarrow> (string \<Rightarrow> nat \<Rightarrow> (nat \<times> string option list
                \<times> (string \<times> string option) list option) option) option" where
  "compile_bar src = (if src = ''^bar$'' then Some (rx_matcher rx_bar) else None)"

text \<open>
  An outside world in which nothing parses as a namespace and no module path resolves.
\<close>

definition example_externals :: externals where
  "example_externals =
     \<lparr>ext_RegExp_new = (\<lambda>src. None),
      ext_toNamespace = (\<lambda>s. None),
      ext_resolveModulePath = (\<lambda>s. None),
      ext_asNamespace = (\<lambda>s. s),
      ext_load = (\<lambda>s. None),
      ext_instantiate = (\<lambda>G args opts. Inr G),
      ext_lookupLocalNamespaces = (\<lambda>s env. env)\<rparr>"





section \<open>Properties\<close>

subsection \<open>Alias resolution\<close>

lemma alias_getter:
  "alias_fn N (AString s) None env =
     (case foldl (\<lambda>acc a. apply_alias a acc) (s, regexps env) (rev (aliases env)) of
        (resolved, heap) \<Rightarrow> (Inr (ReturnString resolved), env\<lparr>regexps := heap\<rparr>))"
  by (simp add: alias_fn_def)

lemma new_Environment_alias_state:
  "aliases (new_Environment qs ae an dk rf eo opts) = [\<lparr>match = 0, value = ''$1:app''\<rparr>]"
  "regexps (new_Environment qs ae an dk rf eo opts) = [rx_no_colon]"
  by (simp_all add: new_Environment_def new_RegExp_def alias_fn_def)

lemma exec_unflagged:
  "\<not> rx_global r \<Longrightarrow> \<not> rx_sticky r \<Longrightarrow> snd (RegExpBuiltinExec r s) = r"
  by (simp add: RegExpBuiltinExec_def Let_def split: option.splits)

lemma test_unflagged:
  "\<not> rx_global r \<Longrightarrow> \<not> rx_sticky r \<Longrightarrow> snd (RegExp_test r s) = r"
  using exec_unflagged[of r s] by (auto simp: RegExp_test_def split: prod.splits)

lemma replace_unflagged:
  "\<not> rx_global r \<Longrightarrow> \<not> rx_sticky r \<Longrightarrow> snd (RegExp_replace r s v) = r"
  using exec_unflagged[of r s]
  by (auto simp: RegExp_replace_def split: prod.splits option.splits)

lemma apply_alias_heap:
  assumes "apply_alias a (s, h) = (s', h')"
  shows "length h' = length h"
    and "i < length h \<Longrightarrow> \<not> rx_global (h ! i) \<Longrightarrow> \<not> rx_sticky (h ! i) \<Longrightarrow> h' ! i = h ! i"
proof -
  show "length h' = length h"
    using assms by (auto simp: apply_alias_def split: if_splits prod.splits bool.splits)
  assume i: "i < length h" "\<not> rx_global (h ! i)" "\<not> rx_sticky (h ! i)"
  show "h' ! i = h ! i"
  proof (cases "match a = i")
    case False
    then show ?thesis using assms i(1)
      by (auto simp: apply_alias_def split: if_splits prod.splits bool.splits)
  next
    case True
    have t: "snd (RegExp_test (h ! i) s) = h ! i" using i by (simp add: test_unflagged)
    have r: "snd (RegExp_replace (h ! i) s (value a)) = h ! i" using i by (simp add: replace_unflagged)
    show ?thesis using assms i(1) True t r
      by (auto simp: apply_alias_def split: if_splits prod.splits bool.splits)
  qed
qed

lemma fold_alias_heap:
  assumes "foldl (\<lambda>acc a. apply_alias a acc) (s, h) rules = (s', h')"
    and "i < length h" and "\<not> rx_global (h ! i)" and "\<not> rx_sticky (h ! i)"
  shows "length h' = length h \<and> h' ! i = h ! i"
  using assms
proof (induction rules arbitrary: s h)
  case Nil
  then show ?case by simp
next
  case (Cons a rules)
  obtain s1 h1 where a: "apply_alias a (s, h) = (s1, h1)" by force
  have 1: "length h1 = length h" "h1 ! i = h ! i"
    using apply_alias_heap[OF a] Cons.prems by simp_all
  have "length h' = length h1 \<and> h' ! i = h1 ! i"
    using Cons.IH[of s1 h1] Cons.prems a 1 by simp
  then show ?case using 1 by simp
qed

lemma test_no_colon:
  "s \<noteq> [] \<Longrightarrow> CHR '':'' \<notin> set s \<Longrightarrow> RegExp_test rx_no_colon s = (True, rx_no_colon)"
  by (simp add: RegExp_test_def RegExpBuiltinExec_def rx_no_colon_def match_at_def Let_def
                upt_conv_Cons del: upt_Suc)

lemma replace_no_colon:
  "s \<noteq> [] \<Longrightarrow> CHR '':'' \<notin> set s \<Longrightarrow>
   RegExp_replace rx_no_colon s ''$1:app'' = (s @ '':app'', rx_no_colon)"
  by (simp add: RegExp_replace_def RegExpBuiltinExec_def rx_no_colon_def match_at_def Let_def
                upt_conv_Cons digit_of_def capture_ref_def del: upt_Suc)

lemma no_match_fold:
  "no_match rules t heap \<Longrightarrow> fst (foldl (\<lambda>acc a. apply_alias a acc) (t, heap) rules) = t"
proof (induction rules arbitrary: heap)
  case Nil
  then show ?case by simp
next
  case (Cons a rules)
  show ?case
  proof (cases "match a \<ge> length heap")
    case True
    then show ?thesis using Cons by (simp add: apply_alias_def)
  next
    case False
    obtain b r1 where t: "RegExp_test (heap ! match a) t = (b, r1)" by force
    then have "\<not> b" "no_match rules t (heap[match a := r1])"
      using Cons.prems False by simp_all
    then show ?thesis using Cons.IH[of "heap[match a := r1]"] False t
      by (simp add: apply_alias_def)
  qed
qed

lemma example_env_alias_state:
  "aliases example_env = [\<lparr>match = 0, value = ''$1:app''\<rparr>]"
  "regexps example_env = [rx_no_colon]"
  by (simp_all add: example_env_def new_Environment_alias_state)

text \<open>
  Rules with flags: \<^verbatim>\<open>alias(/o/g, '0'); alias('f:oo')\<close> replaces every match and gives
  \<^verbatim>\<open>f:00\<close>, the \<^verbatim>\<open>test\<close> having left \<^verbatim>\<open>lastIndex\<close> at 3 and the replacement at 0. With
  \<^verbatim>\<open>/a/y\<close> the \<^verbatim>\<open>test\<close> moves \<^verbatim>\<open>lastIndex\<close> to 1, where the replacement then matches:
  \<^verbatim>\<open>aab\<close> becomes \<^verbatim>\<open>axb\<close> and \<^verbatim>\<open>lastIndex\<close> 2; on this object the next \<^verbatim>\<open>test\<close> of
  \<^verbatim>\<open>aab\<close> fails and resets it.
\<close>

lemma alias_global_rule_example:
  "RegExp_replace rx_o_global ''f:oo'' ''0'' = (''f:00'', rx_o_global)
   \<and> apply_alias \<lparr>match = 0, value = ''0''\<rparr> (''f:oo'', [rx_o_global])
       = (''f:00'', [rx_o_global])
   \<and> RegExp_test rx_o_global ''f:oo'' = (True, rx_o_global\<lparr>lastIndex := 3\<rparr>)"
  by (simp add: apply_alias_def RegExp_test_def RegExp_replace_def RegExpBuiltinExec_def
                match_at_def Let_def rx_o_global_def upt_conv_Cons del: upt_Suc)

lemma alias_sticky_rule_example:
  "RegExp_test rx_a_sticky ''aab'' = (True, rx_a_sticky\<lparr>lastIndex := 1\<rparr>)
   \<and> apply_alias \<lparr>match = 0, value = ''x''\<rparr> (''aab'', [rx_a_sticky])
       = (''axb'', [rx_a_sticky\<lparr>lastIndex := 2\<rparr>])
   \<and> apply_alias \<lparr>match = 0, value = ''x''\<rparr> (''aab'', [rx_a_sticky\<lparr>lastIndex := 2\<rparr>])
       = (''aab'', [rx_a_sticky])"
  by (simp add: apply_alias_def RegExp_test_def RegExp_replace_def RegExpBuiltinExec_def
                match_at_def Let_def rx_a_sticky_def upt_conv_Cons del: upt_Suc)

text \<open>
  Claim C5. The setter pushes its rule at the end of the list, for a \<^verbatim>\<open>RegExp\<close> (the
  object given, by reference) and for a string alike (a new object without flags,
  compiled from \<^verbatim>\<open>^match$\<close>; the \<^verbatim>\<open>SyntaxError\<close> of the compiler leaves the state as it
  was). The getter applies the rule added last first, to the string given and the objects
  as they are, and resolves what that rule returns through the rules added before it,
  on the objects as that rule has left them; with no rule it returns the string. A value
  or match that is empty makes the call a getter. A rule whose \<^verbatim>\<open>test\<close> fails returns the
  string as it is, one whose \<^verbatim>\<open>test\<close> succeeds returns the replacement, and either way
  the object keeps the \<^verbatim>\<open>lastIndex\<close> that \<^verbatim>\<open>test\<close> and \<^verbatim>\<open>replace\<close> have set. A string that
  no rule matches is returned unchanged.
\<close>

theorem alias_reverse_order:
  "v \<noteq> [] \<Longrightarrow>
   alias_fn N (ARegExp a) (Some v) env
     = (Inr ReturnThis, env\<lparr>aliases := aliases env @ [\<lparr>match = a, value = v\<rparr>]\<rparr>)
   \<and> (m \<noteq> [] \<longrightarrow>
        alias_fn N (AString m) (Some v) env
          = (case N (''^'' @ m @ ''$'') of
               None \<Rightarrow> (Inl (SyntaxError ''Invalid regular expression''), env)
             | Some matcher \<Rightarrow>
                 (Inr ReturnThis,
                  env\<lparr>regexps := regexps env @ [\<lparr>rx_matcher = matcher, rx_global = False,
                                                   rx_sticky = False, lastIndex = 0\<rparr>],
                      aliases := aliases env @ [\<lparr>match = length (regexps env), value = v\<rparr>]\<rparr>)))
   \<and> alias_fn N (AString s) None (env\<lparr>aliases := aliases env @ [ru]\<rparr>)
     = (case apply_alias ru (s, regexps env) of
          (s1, h1) \<Rightarrow>
            (case alias_fn N (AString s1) None (env\<lparr>regexps := h1\<rparr>) of
               (res, env') \<Rightarrow> (res, env'\<lparr>aliases := aliases env @ [ru]\<rparr>)))
   \<and> alias_fn N (AString s) None (env\<lparr>aliases := []\<rparr>)
     = (Inr (ReturnString s), env\<lparr>aliases := []\<rparr>)
   \<and> alias_fn N (AString s) (Some []) env = alias_fn N (AString s) None env
   \<and> alias_fn N (AString []) (Some v) env = alias_fn N (AString []) None env
   \<and> apply_alias ru (s, heap)
        = (if match ru \<ge> length heap then (s, heap)
           else if fst (RegExp_test (heap ! match ru) s)
             then (fst (RegExp_replace (snd (RegExp_test (heap ! match ru) s)) s (value ru)),
                   heap[match ru := snd (RegExp_replace (snd (RegExp_test (heap ! match ru) s)) s
                                                        (value ru))])
             else (s, heap[match ru := snd (RegExp_test (heap ! match ru) s)]))
   \<and> (no_match (rev (aliases env)) t (regexps env)
        \<longrightarrow> fst (alias_fn N (AString t) None env) = Inr (ReturnString t))"
proof (intro conjI impI)
  assume v: "v \<noteq> []"
  show "alias_fn N (ARegExp a) (Some v) env
     = (Inr ReturnThis, env\<lparr>aliases := aliases env @ [\<lparr>match = a, value = v\<rparr>]\<rparr>)"
    using v by (simp add: alias_fn_def)
  show "alias_fn N (AString m) (Some v) env
          = (case N (''^'' @ m @ ''$'') of
               None \<Rightarrow> (Inl (SyntaxError ''Invalid regular expression''), env)
             | Some matcher \<Rightarrow>
                 (Inr ReturnThis,
                  env\<lparr>regexps := regexps env @ [\<lparr>rx_matcher = matcher, rx_global = False,
                                                   rx_sticky = False, lastIndex = 0\<rparr>],
                      aliases := aliases env @ [\<lparr>match = length (regexps env), value = v\<rparr>]\<rparr>))"
    if "m \<noteq> []"
    using v that by (simp add: alias_fn_def new_RegExp_def split: option.splits)
  show "alias_fn N (AString s) None (env\<lparr>aliases := aliases env @ [ru]\<rparr>)
     = (case apply_alias ru (s, regexps env) of
          (s1, h1) \<Rightarrow>
            (case alias_fn N (AString s1) None (env\<lparr>regexps := h1\<rparr>) of
               (res, env') \<Rightarrow> (res, env'\<lparr>aliases := aliases env @ [ru]\<rparr>)))"
    by (simp add: alias_getter split: prod.splits)
  show "alias_fn N (AString s) None (env\<lparr>aliases := []\<rparr>)
     = (Inr (ReturnString s), env\<lparr>aliases := []\<rparr>)"
    by (simp add: alias_getter)
  show "alias_fn N (AString s) (Some []) env = alias_fn N (AString s) None env"
    by (simp add: alias_fn_def)
  show "alias_fn N (AString []) (Some v) env = alias_fn N (AString []) None env"
    by (simp add: alias_fn_def)
  show "apply_alias ru (s, heap)
        = (if match ru \<ge> length heap then (s, heap)
           else if fst (RegExp_test (heap ! match ru) s)
             then (fst (RegExp_replace (snd (RegExp_test (heap ! match ru) s)) s (value ru)),
                   heap[match ru := snd (RegExp_replace (snd (RegExp_test (heap ! match ru) s)) s
                                                        (value ru))])
             else (s, heap[match ru := snd (RegExp_test (heap ! match ru) s)]))"
    by (auto simp: apply_alias_def split: prod.splits bool.splits)
  show "fst (alias_fn N (AString t) None env) = Inr (ReturnString t)"
    if "no_match (rev (aliases env)) t (regexps env)"
    using no_match_fold[OF that] by (auto simp: alias_getter split: prod.splits)
qed

theorem alias_reverse_order_witness:
  "''$1:all'' \<noteq> []
   \<and> alias_fn compile_bar (ARegExp 0) (Some ''$1:all'') example_env
      = (Inr ReturnThis,
         example_env\<lparr>aliases := [\<lparr>match = 0, value = ''$1:app''\<rparr>,
                                   \<lparr>match = 0, value = ''$1:all''\<rparr>]\<rparr>)
   \<and> fst (alias_fn compile_bar (AString ''foo'') None
            (example_env\<lparr>aliases := [\<lparr>match = 0, value = ''$1:app''\<rparr>,
                                      \<lparr>match = 0, value = ''$1:all''\<rparr>]\<rparr>))
      = Inr (ReturnString ''foo:all'')
   \<and> no_match [\<lparr>match = 0, value = ''$1:all''\<rparr>, \<lparr>match = 0, value = ''$1:app''\<rparr>]
        ''foo:all'' [rx_no_colon]
   \<and> fst (alias_fn compile_bar (AString ''foo:all'') None
            (example_env\<lparr>aliases := [\<lparr>match = 0, value = ''$1:app''\<rparr>,
                                      \<lparr>match = 0, value = ''$1:all''\<rparr>]\<rparr>))
      = Inr (ReturnString ''foo:all'')
   \<and> ''bar'' \<noteq> []
   \<and> alias_fn compile_bar (AString ''bar'') (Some ''$1:all'') example_env
      = (Inr ReturnThis,
         example_env\<lparr>regexps := [rx_no_colon, rx_bar],
                     aliases := [\<lparr>match = 0, value = ''$1:app''\<rparr>,
                                 \<lparr>match = 1, value = ''$1:all''\<rparr>]\<rparr>)"
  using alias_reverse_order [of "''$1:all''" compile_bar 0 example_env "''bar''" "''foo''"
          "\<lparr>match = 0, value = ''$1:all''\<rparr>" "[rx_no_colon]" "''foo:all''"]
        alias_reverse_order [of "''$1:all''" compile_bar 0
          "example_env\<lparr>aliases := [\<lparr>match = 0, value = ''$1:app''\<rparr>,
                                    \<lparr>match = 0, value = ''$1:all''\<rparr>]\<rparr>"
          "''bar''" "''foo''"
          "\<lparr>match = 0, value = ''$1:all''\<rparr>" "[rx_no_colon]" "''foo:all''"]
  apply (simp add: example_env_alias_state compile_bar_def rx_bar_def)
  apply (simp add: alias_getter example_env_alias_state apply_alias_def RegExp_test_def
                   RegExp_replace_def RegExpBuiltinExec_def match_at_def Let_def
                   rx_no_colon_def digit_of_def capture_ref_def upt_conv_Cons del: upt_Suc)
  done

text \<open>
  Claim C7. In an environment whose rules are the rule of the constructor followed by
  any rules registered later, a non-empty identifier without a colon that the later
  rules, applied latest first, return as it is resolves to the identifier followed by
  \<^verbatim>\<open>:app\<close>, whatever the later rules have done to their objects. (The empty string is no
  identifier: no rule of the constructor matches it.)
\<close>

theorem alias_default_rule:
  assumes "aliases env = aliases (new_Environment qs ae an dk rf eo opts) @ others"
    and "regexps env = regexps (new_Environment qs ae an dk rf eo opts) @ objs"
    and "s \<noteq> []" and "CHR '':'' \<notin> set s"
    and "fst (foldl (\<lambda>acc a. apply_alias a acc) (s, regexps env) (rev others)) = s"
  shows "fst (alias_fn N (AString s) None env) = Inr (ReturnString (s @ '':app''))"
proof -
  obtain h where f: "foldl (\<lambda>acc a. apply_alias a acc) (s, regexps env) (rev others) = (s, h)"
    using assms(5) by (cases "foldl (\<lambda>acc a. apply_alias a acc) (s, regexps env) (rev others)") simp
  have h0: "regexps env ! 0 = rx_no_colon" "0 < length (regexps env)"
    using assms(2) by (simp_all add: new_Environment_alias_state)
  have "length h = length (regexps env) \<and> h ! 0 = regexps env ! 0"
    using fold_alias_heap[OF f h0(2)] h0(1) by (simp add: rx_no_colon_def)
  then have h: "0 < length h" "h ! 0 = rx_no_colon"
    using h0 by simp_all
  have "apply_alias \<lparr>match = 0, value = ''$1:app''\<rparr> (s, h) = (s @ '':app'', h[0 := rx_no_colon])"
    using h assms(3,4) by (simp add: apply_alias_def test_no_colon replace_no_colon)
  then show ?thesis
    using assms(1) f by (simp add: alias_getter new_Environment_alias_state)
qed

theorem alias_default_rule_witness:
  "aliases (example_env\<lparr>aliases := aliases example_env @ [\<lparr>match = 1, value = ''baz''\<rparr>],
                        regexps := regexps example_env @ [rx_bar]\<rparr>)
     = aliases example_env @ [\<lparr>match = 1, value = ''baz''\<rparr>]
   \<and> regexps (example_env\<lparr>aliases := aliases example_env @ [\<lparr>match = 1, value = ''baz''\<rparr>],
                          regexps := regexps example_env @ [rx_bar]\<rparr>)
     = regexps example_env @ [rx_bar]
   \<and> ''foo'' \<noteq> [] \<and> CHR '':'' \<notin> set ''foo''
   \<and> fst (foldl (\<lambda>acc a. apply_alias a acc) (''foo'', [rx_no_colon, rx_bar])
            (rev [\<lparr>match = 1, value = ''baz''\<rparr>])) = ''foo''
   \<and> fst (alias_fn (\<lambda>src. None) (AString ''foo'') None
        (example_env\<lparr>aliases := aliases example_env @ [\<lparr>match = 1, value = ''baz''\<rparr>],
                     regexps := regexps example_env @ [rx_bar]\<rparr>))
      = Inr (ReturnString ''foo:app'')"
  using alias_default_rule [of
      "example_env\<lparr>aliases := aliases example_env @ [\<lparr>match = 1, value = ''baz''\<rparr>],
                   regexps := regexps example_env @ [rx_bar]\<rparr>"
      example_queues False "\<lambda>p. Skip" "\<lambda>p. None" "\<lambda>p. None" None no_options
      "[\<lparr>match = 1, value = ''baz''\<rparr>]" "[rx_bar]" "''foo''" "\<lambda>src. None"]
  by (simp add: example_env_def new_Environment_alias_state apply_alias_def RegExp_test_def
                RegExpBuiltinExec_def match_at_def Let_def rx_bar_def upt_conv_Cons
           del: upt_Suc)

text \<open>
  Claim C9, as the spec states it, fails: the getter does not pass a structural
  namespace through, it throws \<^verbatim>\<open>TypeError('string is required')\<close>.
\<close>

theorem alias_namespace_object_throws:
  "alias_fn (\<lambda>src. None) (AObject ''foo:app'') None example_env
     = (Inl (TypeError ''string is required''), example_env)
   \<and> \<not> (\<exists>r e. alias_fn (\<lambda>src. None) (AObject ''foo:app'') None example_env = (Inr r, e))"
  by (simp add: alias_fn_def)

text \<open>
  Claim C9, amended. Used as a getter (the two arguments are not both truthy), the
  method throws \<^verbatim>\<open>TypeError('string is required')\<close> for every first argument that is
  not a string, whatever the rules are, and leaves the state as it was; a string is
  resolved through the rules and returned.
\<close>

theorem alias_getter_requires_string:
  "((\<forall>s. m \<noteq> AString s) \<longrightarrow> \<not> (truthy_arg m \<and> truthy_string v) \<longrightarrow>
      alias_fn N m v env = (Inl (TypeError ''string is required''), env))
   \<and> (\<exists>t env'. alias_fn N (AString s) None env = (Inr (ReturnString t), env'))"
proof (intro conjI impI)
  assume "\<forall>s. m \<noteq> AString s" "\<not> (truthy_arg m \<and> truthy_string v)"
  then show "alias_fn N m v env = (Inl (TypeError ''string is required''), env)"
    by (cases m) (auto simp: alias_fn_def)
next
  show "\<exists>t env'. alias_fn N (AString s) None env = (Inr (ReturnString t), env')"
    by (simp add: alias_getter split: prod.splits)
qed

theorem alias_getter_requires_string_witness:
  "\<not> (truthy_arg AUndefined \<and> truthy_string (Some ''x''))
   \<and> alias_fn (\<lambda>src. None) AUndefined (Some ''x'') example_env
       = (Inl (TypeError ''string is required''), example_env)
   \<and> \<not> (truthy_arg (ARegExp 0) \<and> truthy_string None)
   \<and> alias_fn (\<lambda>src. None) (ARegExp 0) None example_env
       = (Inl (TypeError ''string is required''), example_env)"
  using alias_getter_requires_string [of AUndefined "Some ''x''" "\<lambda>src. None" example_env]
        alias_getter_requires_string [of "ARegExp 0" None "\<lambda>src. None" example_env]
  by simp

subsection \<open>Running a generator by name\<close>

lemma alias_fn_getter_frame:
  "alias_fn N (AString s) None env = (r, env') \<Longrightarrow> \<exists>h. env' = env\<lparr>regexps := h\<rparr>"
  by (auto simp: alias_getter split: prod.splits)

lemma alias_of_frame: "\<exists>h. snd (alias_of ext s env) = env\<lparr>regexps := h\<rparr>"
proof -
  obtain r env' where a: "alias_fn (ext_RegExp_new ext) (AString s) None env = (r, env')" by force
  then obtain h where "env' = env\<lparr>regexps := h\<rparr>" using alias_fn_getter_frame by blast
  then show ?thesis using a
    by (auto simp: alias_of_def split: sum.splits alias_return.splits)
qed

lemma get_or_alias_prepare:
  "prepare_calls (snd (get_or_alias ext ns env)) = prepare_calls env"
proof -
  obtain h where "snd (alias_of ext ns env) = env\<lparr>regexps := h\<rparr>" using alias_of_frame by blast
  then show ?thesis
    by (auto simp: get_or_alias_def split: option.splits prod.splits)
qed

lemma store_add_prepare: "prepare_calls (store_add ns l env) = prepare_calls env"
  by (simp add: store_add_def split: option.splits)

lemma get_prepare: "prepare_calls (snd (get ext n env)) = prepare_calls env"
proof -
  have a: "prepare_calls (snd (get_or_alias ext x env)) = prepare_calls env" for x
    by (rule get_or_alias_prepare)
  show ?thesis
    using a[of n] a[of "the (ext_toNamespace ext n)"]
    by (auto simp: get_def Let_def store_add_prepare split: option.splits prod.splits)
qed

lemma truthy_promise_True: "truthy_promise P"
  by (cases P) simp

lemma create_unfold:
  "create ext n args opts env =
     (case get ext n env of
        (PromiseOf None, env2) \<Rightarrow> (Inl (TypeError (''generator not installed: '' @ n)), env2)
      | (PromiseOf (Some G), env2) \<Rightarrow>
          (case ext_instantiate ext G args opts of
             Inl e \<Rightarrow> (Inl e, env2)
           | Inr g \<Rightarrow> (Inr g, env2)))"
  by (simp add: create_def truthy_promise_True split: prod.splits js_promise.splits)

lemma example_externals_sel:
  "ext_RegExp_new example_externals = (\<lambda>src. None)"
  "ext_toNamespace example_externals = (\<lambda>s. None)"
  "ext_resolveModulePath example_externals = (\<lambda>s. None)"
  "ext_load example_externals = (\<lambda>s. None)"
  by (simp_all add: example_externals_def)

lemma example_env_store: "store (example_env\<lparr>experimental := True\<rparr>) = []"
  by (simp add: example_env_def new_Environment_def new_RegExp_def alias_fn_def)

lemma example_alias_missing:
  "alias_of example_externals ''missing'' (example_env\<lparr>experimental := True\<rparr>)
     = (''missing:app'', example_env\<lparr>experimental := True\<rparr>)"
  by (simp add: alias_of_def alias_getter example_env_def new_Environment_def new_RegExp_def
                alias_fn_def apply_alias_def test_no_colon replace_no_colon)

lemma example_get_missing:
  "get example_externals ''missing'' (example_env\<lparr>experimental := True\<rparr>)
     = (PromiseOf None, example_env\<lparr>experimental := True\<rparr>)"
  by (simp add: get_def get_or_alias_def example_alias_missing example_externals_sel
                store_get_def example_env_store)

text \<open>
  Claim C6 does not hold of the code. \<^verbatim>\<open>run\<close> tests \<^verbatim>\<open>!this.get(name)\<close>, and
  \<^verbatim>\<open>get\<close> is an \<^verbatim>\<open>async\<close> method: what is negated is the promise, which is truthy,
  so the branch that calls \<^verbatim>\<open>prepareEnvironment\<close> is never taken. For a name that
  \<^verbatim>\<open>get\<close> does not resolve, \<^verbatim>\<open>run\<close> rejects with the not-installed error and has made
  no attempt to install, in experimental mode as in any other.
\<close>

theorem run_never_installs:
  "name \<noteq> [] \<Longrightarrow>
   fst (get ext name (snd (get ext name env))) = PromiseOf None \<Longrightarrow>
   fst (get ext name env) = PromiseOf None \<Longrightarrow>
   fst (run ext (name # rest) opts env) = Inl (TypeError (''generator not installed: '' @ name))
   \<and> prepare_calls (snd (run ext (name # rest) opts env)) = prepare_calls env"
proof -
  assume n: "name \<noteq> []"
    and g2: "fst (get ext name (snd (get ext name env))) = PromiseOf None"
    and g1: "fst (get ext name env) = PromiseOf None"
  obtain P env1 where a: "get ext name env = (P, env1)" by force
  have p1: "prepare_calls env1 = prepare_calls env" using get_prepare[of ext name env] a by simp
  show ?thesis
  proof (cases "experimental env")
    case True
    obtain Q env2 where b: "get ext name env1 = (Q, env2)" by force
    have q: "Q = PromiseOf None" using g2 a b by simp
    have p2: "prepare_calls env2 = prepare_calls env1" using get_prepare[of ext name env1] b by simp
    have "run ext (name # rest) opts env = (Inl (TypeError (''generator not installed: '' @ name)), env2)"
      using n True a b q by (cases P) (simp add: run_def create_unfold Let_def)
    then show ?thesis using p1 p2 by simp
  next
    case False
    have "P = PromiseOf None" using g1 a by simp
    then have "run ext (name # rest) opts env = (Inl (TypeError (''generator not installed: '' @ name)), env1)"
      using n False a by (simp add: run_def create_unfold Let_def)
    then show ?thesis using p1 by simp
  qed
qed

theorem run_never_installs_witness:
  "''missing'' \<noteq> []
   \<and> experimental (example_env\<lparr>experimental := True\<rparr>)
   \<and> fst (get example_externals ''missing'' (example_env\<lparr>experimental := True\<rparr>)) = PromiseOf None
   \<and> fst (run example_externals [''missing''] no_options (example_env\<lparr>experimental := True\<rparr>))
       = Inl (TypeError ''generator not installed: missing'')
   \<and> prepare_calls (snd (run example_externals [''missing''] no_options
                            (example_env\<lparr>experimental := True\<rparr>))) = []"
  using run_never_installs [of "''missing''" example_externals
          "example_env\<lparr>experimental := True\<rparr>" "[]" no_options]
  by (simp add: example_get_missing) (simp add: example_env_def new_Environment_def new_RegExp_def alias_fn_def)

subsection \<open>A failing task\<close>




lemma queueTask_frame: "task_frame env (snd (queueTask pr t k sq env))"
  by (simp add: queueTask_def rl_add_def task_frame_def Let_def split: option.splits)


lemma queuePackageManagerInstall_frame: "task_frame env (snd (queuePackageManagerInstall env))"
  unfolding queuePackageManagerInstall_def by (rule queueTask_frame)






























subsection \<open>Committing again after a change\<close>



















end
